theory Spec2Isabelle
  imports Complex_Main "HOL-Library.Word"
begin

section \<open>Numeric types and vectors\<close>

text \<open>
  The engine computes on \<open>f32\<close> (\<open>Core/Types.hpp\<close>). This development reads every
  \<open>f32\<close> as a real number: each comparison, branch, clamp and formula of the source is
  kept as written, while rounding, overflow to infinity and NaN are not represented.
  The decimal literals of the source (\<open>0.22f\<close>, \<open>9.81f\<close>, ...) are the decimals
  themselves. The \<open>i32\<close> scores are 32-bit words, read as
  two's complement by \<open>sint\<close>.
\<close>

type_synonym f32 = real
type_synonym i32 = "32 word"

record Vec3 =
  vx :: f32
  vy :: f32
  vz :: f32

definition vec3 :: "f32 \<Rightarrow> f32 \<Rightarrow> f32 \<Rightarrow> Vec3" where
  "vec3 a b c = \<lparr>vx = a, vy = b, vz = c\<rparr>"

text \<open>\<open>Vec3(0.0f)\<close>: the same scalar in every component.\<close>

definition vec3_splat :: "f32 \<Rightarrow> Vec3" where
  "vec3_splat a = \<lparr>vx = a, vy = a, vz = a\<rparr>"

definition vadd :: "Vec3 \<Rightarrow> Vec3 \<Rightarrow> Vec3" where
  "vadd a b = \<lparr>vx = vx a + vx b, vy = vy a + vy b, vz = vz a + vz b\<rparr>"

definition vsub :: "Vec3 \<Rightarrow> Vec3 \<Rightarrow> Vec3" where
  "vsub a b = \<lparr>vx = vx a - vx b, vy = vy a - vy b, vz = vz a - vz b\<rparr>"

definition vscale :: "Vec3 \<Rightarrow> f32 \<Rightarrow> Vec3" where
  "vscale a s = \<lparr>vx = vx a * s, vy = vy a * s, vz = vz a * s\<rparr>"

definition vdiv :: "Vec3 \<Rightarrow> f32 \<Rightarrow> Vec3" where
  "vdiv a s = \<lparr>vx = vx a / s, vy = vy a / s, vz = vz a / s\<rparr>"

definition vdot :: "Vec3 \<Rightarrow> Vec3 \<Rightarrow> f32" where
  "vdot a b = vx a * vx b + vy a * vy b + vz a * vz b"

text \<open>\<open>glm::cross\<close>.\<close>

definition vcross :: "Vec3 \<Rightarrow> Vec3 \<Rightarrow> Vec3" where
  "vcross a b = \<lparr>vx = vy a * vz b - vy b * vz a,
                 vy = vz a * vx b - vz b * vx a,
                 vz = vx a * vy b - vx b * vy a\<rparr>"

text \<open>\<open>glm::length\<close> is \<open>sqrt (dot v v)\<close>.\<close>

definition vlength :: "Vec3 \<Rightarrow> f32" where
  "vlength a = sqrt (vdot a a)"

text \<open>\<open>glm::normalize\<close> is \<open>v * inversesqrt (dot v v)\<close>.\<close>

definition vnormalize :: "Vec3 \<Rightarrow> Vec3" where
  "vnormalize a = vscale a (1 / sqrt (vdot a a))"

section \<open>Ball state (\<open>Physics/BallPhysics.hpp\<close>, \<open>Game/Ball.hpp\<close>)\<close>

record BallState =
  position :: Vec3
  velocity :: Vec3
  angularVelocity :: Vec3
  rotationAngle :: f32

record FieldBounds =
  length_b :: f32
  width :: f32
  goalWidth :: f32
  goalHeight :: f32

text \<open>The class \<open>Ball\<close> has the single member \<open>m_state\<close>; it is modelled by that member.\<close>

type_synonym Ball = BallState

definition BALL_RADIUS :: f32 where "BALL_RADIUS = 0.22"
definition BALL_MASS :: f32 where "BALL_MASS = 0.43"
definition GRAVITY :: f32 where "GRAVITY = 9.81"
definition AIR_DENSITY :: f32 where "AIR_DENSITY = 1.2"
definition DRAG_COEFFICIENT :: f32 where "DRAG_COEFFICIENT = 0.2"
definition MAGNUS_COEFFICIENT :: f32 where "MAGNUS_COEFFICIENT = 0.5"
definition BOUNCE_FACTOR :: f32 where "BOUNCE_FACTOR = 0.7"
definition ROLLING_FRICTION :: f32 where "ROLLING_FRICTION = 0.3"
definition SPIN_DECAY :: f32 where "SPIN_DECAY = 0.98"

text \<open>\<open>Ball::RADIUS = BallPhysics::BALL_RADIUS\<close>.\<close>

definition Ball_RADIUS :: f32 where "Ball_RADIUS = BALL_RADIUS"

text \<open>The default member initialisers of \<open>BallState\<close>.\<close>

definition BallState_default :: BallState where
  "BallState_default = \<lparr>position = vec3 0 0.5 0, velocity = vec3 0 0 0,
     angularVelocity = vec3 0 0 0, rotationAngle = 0\<rparr>"

text \<open>\<open>Ball::reset\<close>.\<close>

definition Ball_reset :: "Ball \<Rightarrow> Ball" where
  "Ball_reset b = b\<lparr>position := vec3 0 0.5 0, velocity := vec3_splat 0,
                    angularVelocity := vec3_splat 0, rotationAngle := 0\<rparr>"

section \<open>Ball physics (\<open>Physics/BallPhysics.cpp\<close>)\<close>

definition isInAir :: "BallState \<Rightarrow> bool" where
  "isInAir ball = (let airThreshold = BALL_RADIUS + 0.3 in vy (position ball) > airThreshold)"

definition isLow :: "BallState \<Rightarrow> bool" where
  "isLow ball = (vy (position ball) < BALL_RADIUS + 0.15 \<and> vy (velocity ball) < 0.5)"

definition applyGravity :: "BallState \<Rightarrow> f32 \<Rightarrow> BallState" where
  "applyGravity ball deltaTime =
     ball\<lparr>velocity := (velocity ball)\<lparr>vy := vy (velocity ball) - GRAVITY * deltaTime\<rparr>\<rparr>"

definition applyAirDrag :: "BallState \<Rightarrow> f32 \<Rightarrow> BallState" where
  "applyAirDrag ball deltaTime =
     (let ballSpeed = vlength (velocity ball) in
      if ballSpeed < 0.01 then ball
      else
        let velDir = vdiv (velocity ball) ballSpeed;
            ballArea = 3.14159 * BALL_RADIUS * BALL_RADIUS;
            dragForce = 0.5 * AIR_DENSITY * DRAG_COEFFICIENT * ballArea * ballSpeed * ballSpeed;
            dragAccel = dragForce / BALL_MASS
        in ball\<lparr>velocity := vsub (velocity ball) (vscale (vscale velDir dragAccel) deltaTime)\<rparr>)"

definition applyMagnusEffect :: "BallState \<Rightarrow> f32 \<Rightarrow> BallState" where
  "applyMagnusEffect ball deltaTime =
     (let magnusForce0 = vscale (vcross (angularVelocity ball) (velocity ball)) MAGNUS_COEFFICIENT;
          maxMagnusAccel = 15.0;
          magnusAccel = vlength magnusForce0 / BALL_MASS;
          magnusForce = (if magnusAccel > maxMagnusAccel
                         then vscale magnusForce0 (maxMagnusAccel / magnusAccel)
                         else magnusForce0)
      in ball\<lparr>velocity := vadd (velocity ball) (vscale (vdiv magnusForce BALL_MASS) deltaTime)\<rparr>)"

text \<open>\<open>std::pow\<close> on a positive base is \<open>powr\<close>.\<close>

definition applySpinDecay :: "BallState \<Rightarrow> f32 \<Rightarrow> BallState" where
  "applySpinDecay ball deltaTime =
     (if isInAir ball
      then ball\<lparr>angularVelocity := vscale (angularVelocity ball) (SPIN_DECAY powr deltaTime)\<rparr>
      else ball\<lparr>angularVelocity := vscale (angularVelocity ball) (0.9 powr deltaTime)\<rparr>)"

definition handleGroundCollision :: "BallState \<Rightarrow> BallState" where
  "handleGroundCollision ball =
     (let groundY = BALL_RADIUS in
      if vy (position ball) < groundY then
        let b1 = ball\<lparr>position := (position ball)\<lparr>vy := groundY\<rparr>\<rparr> in
        if vy (velocity b1) < - 0.5
        then b1\<lparr>velocity := \<lparr>vx = vx (velocity b1) * 0.9,
                               vy = - vy (velocity b1) * BOUNCE_FACTOR,
                               vz = vz (velocity b1) * 0.9\<rparr>,
                 angularVelocity := vscale (angularVelocity b1) 0.7\<rparr>
        else b1\<lparr>velocity := (velocity b1)\<lparr>vy := 0\<rparr>\<rparr>
      else ball)"

definition applyRollingFriction :: "BallState \<Rightarrow> f32 \<Rightarrow> BallState" where
  "applyRollingFriction ball deltaTime =
     (let groundY = BALL_RADIUS in
      if vy (position ball) \<le> groundY + 0.05 then
        let groundSpeed = vlength (vec3 (vx (velocity ball)) 0 (vz (velocity ball))) in
        if groundSpeed > 0.01 then
          let frictionDecel = ROLLING_FRICTION * GRAVITY * deltaTime;
              newSpeed = max 0 (groundSpeed - frictionDecel);
              frictionFactor = newSpeed / groundSpeed
          in ball\<lparr>velocity := (velocity ball)\<lparr>vx := vx (velocity ball) * frictionFactor,
                                                 vz := vz (velocity ball) * frictionFactor\<rparr>\<rparr>
        else ball\<lparr>velocity := (velocity ball)\<lparr>vx := 0, vz := 0\<rparr>\<rparr>
      else ball)"

text \<open>\<open>std::copysign m s\<close>: the magnitude of \<open>m\<close> with the sign of \<open>s\<close>.\<close>

definition copysign :: "f32 \<Rightarrow> f32 \<Rightarrow> f32" where
  "copysign m s = (if s < 0 then - \<bar>m\<bar> else \<bar>m\<bar>)"

text \<open>The local \<open>inGoalArea\<close> of \<open>BallPhysics::handleFieldBoundaries\<close>.\<close>

definition physics_inGoalArea :: "FieldBounds \<Rightarrow> Vec3 \<Rightarrow> bool" where
  "physics_inGoalArea bounds pos =
     (let goalHalfW = goalWidth bounds / 2 in
      \<bar>vz pos\<bar> < goalHalfW \<and> vy pos < goalHeight bounds)"

definition handleFieldBoundaries :: "BallState \<Rightarrow> FieldBounds \<Rightarrow> BallState" where
  "handleFieldBoundaries ball bounds =
     (let halfLength = length_b bounds / 2;
          halfWidth = width bounds / 2;
          b1 = (if \<bar>vx (position ball)\<bar> > halfLength then
                  (if \<not> physics_inGoalArea bounds (position ball) then
                     ball\<lparr>position := (position ball)\<lparr>vx := copysign halfLength (vx (position ball))\<rparr>,
                          velocity := (velocity ball)\<lparr>vx := - vx (velocity ball) * 0.5\<rparr>,
                          angularVelocity := vscale (angularVelocity ball) 0.5\<rparr>
                   else ball)
                else ball)
      in if \<bar>vz (position b1)\<bar> > halfWidth + 0.5 then
           b1\<lparr>position := (position b1)\<lparr>vz := copysign (halfWidth + 0.5) (vz (position b1))\<rparr>,
              velocity := (velocity b1)\<lparr>vz := - vz (velocity b1) * 0.5\<rparr>,
              angularVelocity := vscale (angularVelocity b1) 0.5\<rparr>
         else b1)"

text \<open>
  \<open>BallPhysics::update\<close>, in three parts: the forces before the Magnus step (lines 10 to
  18), the Magnus step with its guard (lines 20 to 23), and the whole update. \<open>inAir\<close> and
  \<open>ballSpeed\<close> are read once, from the state the update is called on.
\<close>

definition update_gravity_drag :: "BallState \<Rightarrow> f32 \<Rightarrow> BallState" where
  "update_gravity_drag ball deltaTime =
     (let inAir = isInAir ball;
          ballSpeed = vlength (velocity ball);
          b1 = applyGravity ball deltaTime
      in if inAir \<and> ballSpeed > 0.1 then applyAirDrag b1 deltaTime else b1)"

definition update_magnus :: "bool \<Rightarrow> f32 \<Rightarrow> BallState \<Rightarrow> f32 \<Rightarrow> BallState" where
  "update_magnus inAir ballSpeed ball deltaTime =
     (if inAir \<and> vlength (angularVelocity ball) > 0.1 \<and> ballSpeed > 1.0
      then applyMagnusEffect ball deltaTime else ball)"

definition BallPhysics_update :: "BallState \<Rightarrow> f32 \<Rightarrow> FieldBounds \<Rightarrow> BallState" where
  "BallPhysics_update ball deltaTime bounds =
     (let inAir = isInAir ball;
          ballSpeed = vlength (velocity ball);
          b2 = update_gravity_drag ball deltaTime;
          b3 = update_magnus inAir ballSpeed b2 deltaTime;
          b4 = applySpinDecay b3 deltaTime;
          b5 = b4\<lparr>position := vadd (position b4) (vscale (velocity b4) deltaTime)\<rparr>;
          b6 = (if ballSpeed > 0.1
                then b5\<lparr>rotationAngle := rotationAngle b5 + ballSpeed * deltaTime * 3.0\<rparr>
                else b5);
          b7 = handleGroundCollision b6;
          b8 = applyRollingFriction b7 deltaTime
      in handleFieldBoundaries b8 bounds)"

text \<open>The default field of \<open>FieldBounds\<close>.\<close>

definition FieldBounds_default :: FieldBounds where
  "FieldBounds_default = \<lparr>length_b = 105.0, width = 68.0, goalWidth = 7.32, goalHeight = 2.44\<rparr>"

text \<open>\<open>Ball::kick\<close>.\<close>

definition Ball_kick :: "Vec3 \<Rightarrow> f32 \<Rightarrow> f32 \<Rightarrow> f32 \<Rightarrow> Ball \<Rightarrow> Ball" where
  "Ball_kick direction power_k spinY spinX b =
     (let kickDir = vnormalize direction
      in b\<lparr>velocity := vscale kickDir power_k, angularVelocity := vec3 spinX spinY 0\<rparr>)"

section \<open>Match state (\<open>Game/Match.hpp\<close>, \<open>Game/Match.cpp\<close>)\<close>

record Match =
  m_fieldLength :: f32
  m_fieldWidth :: f32
  m_goalWidth :: f32
  m_goalHeight :: f32
  m_scoreLeft :: i32
  m_scoreRight :: i32
  m_goalScored :: bool
  m_celebrationTimer :: f32
  m_lastScoringTeam :: i32

definition GOAL_CELEBRATION_DURATION :: f32 where "GOAL_CELEBRATION_DURATION = 3.0"

text \<open>\<open>Match::reset\<close>.\<close>

definition Match_reset :: "Match \<Rightarrow> Match" where
  "Match_reset m = m\<lparr>m_scoreLeft := 0, m_scoreRight := 0, m_goalScored := False,
                     m_celebrationTimer := 0, m_lastScoringTeam := - 1\<rparr>"

text \<open>\<open>Match::checkGoal\<close>: the returned flag and the updated match. Logging is left out.\<close>

definition checkGoal :: "Vec3 \<Rightarrow> Match \<Rightarrow> bool \<times> Match" where
  "checkGoal ballPos m =
    (if m_goalScored m then (False, m)
     else
       let goalLineX = m_fieldLength m / 2;
           goalHalfWidth = m_goalWidth m / 2;
           ballRadius = Ball_RADIUS;
           inGoalZ = (\<bar>vz ballPos\<bar> < goalHalfWidth);
           inGoalY = (vy ballPos < m_goalHeight m \<and> vy ballPos > 0)
       in if vx ballPos > goalLineX + ballRadius \<and> inGoalZ \<and> inGoalY
          then (True, m\<lparr>m_scoreRight := m_scoreRight m + 1, m_goalScored := True,
                        m_celebrationTimer := GOAL_CELEBRATION_DURATION,
                        m_lastScoringTeam := 0\<rparr>)
          else if vx ballPos < - goalLineX - ballRadius \<and> inGoalZ \<and> inGoalY
          then (True, m\<lparr>m_scoreLeft := m_scoreLeft m + 1, m_goalScored := True,
                        m_celebrationTimer := GOAL_CELEBRATION_DURATION,
                        m_lastScoringTeam := 1\<rparr>)
          else (False, m))"

text \<open>\<open>Match::resetAfterGoal\<close>: the match and the ball it resets.\<close>

definition resetAfterGoal :: "Ball \<Rightarrow> Match \<Rightarrow> Match \<times> Ball" where
  "resetAfterGoal ball m =
    (m\<lparr>m_goalScored := False, m_celebrationTimer := 0\<rparr>, Ball_reset ball)"

text \<open>\<open>Match::update\<close>.\<close>

definition Match_update :: "f32 \<Rightarrow> Ball \<Rightarrow> Match \<Rightarrow> Match \<times> Ball" where
  "Match_update deltaTime ball m =
    (if m_goalScored m then
       let m1 = m\<lparr>m_celebrationTimer := m_celebrationTimer m - deltaTime\<rparr>
       in if m_celebrationTimer m1 \<le> 0 then resetAfterGoal ball m1 else (m1, ball)
     else (snd (checkGoal (position ball) m), ball))"

text \<open>Repeated calls of \<open>checkGoal\<close>, one per listed ball position: the flags returned, in
  order, and the final match.\<close>

fun checkGoal_calls :: "Vec3 list \<Rightarrow> Match \<Rightarrow> bool list \<times> Match" where
  "checkGoal_calls [] m = ([], m)"
| "checkGoal_calls (p # ps) m =
     (let (r, m1) = checkGoal p m; (rs, m2) = checkGoal_calls ps m1 in (r # rs, m2))"

text \<open>The default member initialisers of \<open>Match\<close>.\<close>

definition Match_default :: Match where
  "Match_default = \<lparr>m_fieldLength = 105.0, m_fieldWidth = 68.0, m_goalWidth = 7.32,
     m_goalHeight = 2.44, m_scoreLeft = 0, m_scoreRight = 0, m_goalScored = False,
     m_celebrationTimer = 0, m_lastScoringTeam = - 1\<rparr>"

text \<open>The local \<open>inGoalArea\<close> of \<open>Match::handleBoundaryCollision\<close>.\<close>

definition match_inGoalArea :: "Match \<Rightarrow> Vec3 \<Rightarrow> bool" where
  "match_inGoalArea m pos =
     (let goalHalfWidth = m_goalWidth m / 2 in
      \<bar>vz pos\<bar> < goalHalfWidth \<and> vy pos < m_goalHeight m)"

text \<open>\<open>Match::handleBoundaryCollision\<close>: \<open>pos\<close> and \<open>vel\<close> are copies taken on entry.\<close>

definition handleBoundaryCollision :: "Ball \<Rightarrow> Match \<Rightarrow> Ball" where
  "handleBoundaryCollision ball m =
     (let pos = position ball;
          vel = velocity ball;
          halfLength = m_fieldLength m / 2;
          halfWidth = m_fieldWidth m / 2;
          radius = Ball_RADIUS;
          b1 = (if vz pos < - halfWidth + radius then
                  ball\<lparr>position := (position ball)\<lparr>vz := - halfWidth + radius\<rparr>,
                       velocity := (velocity ball)\<lparr>vz := \<bar>vz vel\<bar> * 0.6\<rparr>\<rparr>
                else if vz pos > halfWidth - radius then
                  ball\<lparr>position := (position ball)\<lparr>vz := halfWidth - radius\<rparr>,
                       velocity := (velocity ball)\<lparr>vz := - \<bar>vz vel\<bar> * 0.6\<rparr>\<rparr>
                else ball);
          inGoalArea = match_inGoalArea m pos
      in if \<not> inGoalArea then
           (if vx pos < - halfLength + radius then
              b1\<lparr>position := (position b1)\<lparr>vx := - halfLength + radius\<rparr>,
                 velocity := (velocity b1)\<lparr>vx := \<bar>vx vel\<bar> * 0.6\<rparr>\<rparr>
            else if vx pos > halfLength - radius then
              b1\<lparr>position := (position b1)\<lparr>vx := halfLength - radius\<rparr>,
                 velocity := (velocity b1)\<lparr>vx := - \<bar>vx vel\<bar> * 0.6\<rparr>\<rparr>
            else b1)
         else b1)"

text \<open>
  A call made on the match from outside: \<open>update\<close> and \<open>resetAfterGoal\<close> are handed the
  ball of that moment, \<open>checkGoal\<close> a position. The ball is owned by the caller, so a
  run keeps the match only.
\<close>

datatype MatchCall = CallUpdate f32 Ball | CallCheckGoal Vec3 | CallResetAfterGoal Ball

fun call_match :: "MatchCall \<Rightarrow> Match \<Rightarrow> Match" where
  "call_match (CallUpdate deltaTime ball) m = fst (Match_update deltaTime ball m)"
| "call_match (CallCheckGoal ballPos) m = snd (checkGoal ballPos m)"
| "call_match (CallResetAfterGoal ball) m = fst (resetAfterGoal ball m)"

fun run_match :: "MatchCall list \<Rightarrow> Match \<Rightarrow> Match" where
  "run_match [] m = m"
| "run_match (c # cs) m = run_match cs (call_match c m)"

section \<open>Human player (\<open>Game/Player.hpp\<close>, \<open>Game/Player.cpp\<close>)\<close>

record Player =
  m_position :: Vec3
  m_velocity :: Vec3
  m_rotation :: f32
  m_targetRotation :: f32
  m_inputDirection :: Vec3
  m_isSprinting :: bool
  m_animationTime :: f32
  m_kickAnimationTimer :: f32
  m_isKicking :: bool

definition Player_ROTATION_SPEED :: f32 where "Player_ROTATION_SPEED = 6.0"
definition Player_KICK_RANGE :: f32 where "Player_KICK_RANGE = 1.5"

text \<open>The default member initialisers of \<open>Player\<close>.\<close>

definition Player_default :: Player where
  "Player_default = \<lparr>m_position = vec3 0 0 5.0, m_velocity = vec3_splat 0, m_rotation = 0,
     m_targetRotation = 0, m_inputDirection = vec3_splat 0, m_isSprinting = False,
     m_animationTime = 0, m_kickAnimationTimer = 0, m_isKicking = False\<rparr>"

text \<open>\<open>Player::tryKick\<close>: the returned flag, the player and the ball.\<close>

definition Player_tryKick :: "Ball \<Rightarrow> bool \<Rightarrow> f32 \<Rightarrow> Player \<Rightarrow> bool \<times> Player \<times> Ball" where
  "Player_tryKick ball sprinting spinY p =
     (let distToBall = vlength (vsub (position ball) (m_position p)) in
      if distToBall \<ge> Player_KICK_RANGE then (False, p, ball)
      else
        let kickDir0 = vec3 (- sin (m_rotation p)) 0.3 (- cos (m_rotation p));
            kickDir = vnormalize kickDir0;
            kickPower = (if sprinting then 22.0 else 15.0);
            spinX = (if sprinting then - 5.0 else 0.0);
            ball1 = Ball_kick kickDir kickPower spinY spinX ball
        in (True, p\<lparr>m_isKicking := True, m_kickAnimationTimer := 0.3\<rparr>, ball1))"

text \<open>
  The two loops that bring an angle back into range:
  \<open>while (r > 3.14159f) r -= 6.28318f;\<close> and \<open>while (r < -3.14159f) r += 6.28318f;\<close>.
\<close>

function wrap_down :: "f32 \<Rightarrow> f32" where
  "wrap_down r = (if r > 3.14159 then wrap_down (r - 6.28318) else r)"
  by pat_completeness auto
termination
proof (relation "measure (\<lambda>r. nat \<lceil>r\<rceil>)")
  show "wf (measure (\<lambda>r::real. nat \<lceil>r\<rceil>))" by simp
next
  fix r :: real
  assume a: "3.14159 < r"
  have "\<lceil>r - 6.28318\<rceil> \<le> \<lceil>r - 6\<rceil>" by (rule ceiling_mono) simp
  also have "\<dots> = \<lceil>r\<rceil> - 6" using ceiling_diff_numeral [of r "Num.Bit0 (Num.Bit1 Num.One)"] by simp
  finally have "\<lceil>r - 6.28318\<rceil> < \<lceil>r\<rceil>" by linarith
  moreover have "0 < \<lceil>r\<rceil>" using a by (simp add: less_ceiling_iff)
  ultimately show "(r - 6.28318, r) \<in> measure (\<lambda>r. nat \<lceil>r\<rceil>)" by simp
qed

function wrap_up :: "f32 \<Rightarrow> f32" where
  "wrap_up r = (if r < - 3.14159 then wrap_up (r + 6.28318) else r)"
  by pat_completeness auto
termination
proof (relation "measure (\<lambda>r. nat \<lceil>- r\<rceil>)")
  show "wf (measure (\<lambda>r::real. nat \<lceil>- r\<rceil>))" by simp
next
  fix r :: real
  assume a: "r < - 3.14159"
  have "\<lceil>- (r + 6.28318)\<rceil> \<le> \<lceil>- r - 6\<rceil>" by (rule ceiling_mono) simp
  also have "\<dots> = \<lceil>- r\<rceil> - 6" using ceiling_diff_numeral [of "- r" "Num.Bit0 (Num.Bit1 Num.One)"] by simp
  finally have "\<lceil>- (r + 6.28318)\<rceil> < \<lceil>- r\<rceil>" by linarith
  moreover have "0 < \<lceil>- r\<rceil>" using a by (simp add: less_ceiling_iff)
  ultimately show "(r + 6.28318, r) \<in> measure (\<lambda>r. nat \<lceil>- r\<rceil>)" by simp
qed

declare wrap_down.simps [simp del] wrap_up.simps [simp del]

text \<open>\<open>Player::updateRotation\<close>.\<close>

definition Player_updateRotation :: "f32 \<Rightarrow> Player \<Rightarrow> Player" where
  "Player_updateRotation deltaTime p =
     (let rotationDiff = wrap_up (wrap_down (m_targetRotation p - m_rotation p));
          t = 1.0 - exp (- Player_ROTATION_SPEED * deltaTime);
          r = m_rotation p + rotationDiff * t
      in p\<lparr>m_rotation := wrap_up (wrap_down r)\<rparr>)"

section \<open>AI players (\<open>Game/AIPlayer.hpp\<close>, \<open>Game/AIPlayer.cpp\<close>)\<close>

datatype AIState = Idle | ChaseBall | ReturnToPosition | Defend

text \<open>Members that \<open>Player\<close> also has carry the suffix \<open>_ai\<close>.\<close>

record AIPlayer =
  m_position_ai :: Vec3
  m_velocity_ai :: Vec3
  m_homePosition :: Vec3
  m_rotation_ai :: f32
  m_targetRotation_ai :: f32
  m_state :: AIState
  m_team :: i32
  m_kickCooldown :: f32
  m_animTime :: f32
  m_isClosestChaser :: bool
  m_isGoalkeeper :: bool
  m_isDefender :: bool
  m_targetPos :: Vec3
  m_currentTargetSpeed :: f32

definition AI_MAX_SPEED :: f32 where "AI_MAX_SPEED = 7.0"
definition AI_ROTATION_SPEED :: f32 where "AI_ROTATION_SPEED = 8.0"

text \<open>The default member initialisers of \<open>AIPlayer\<close>.\<close>

definition AIPlayer_default :: AIPlayer where
  "AIPlayer_default = \<lparr>m_position_ai = vec3_splat 0, m_velocity_ai = vec3_splat 0,
     m_homePosition = vec3_splat 0, m_rotation_ai = 0, m_targetRotation_ai = 0,
     m_state = Idle, m_team = 0, m_kickCooldown = 0, m_animTime = 0,
     m_isClosestChaser = False, m_isGoalkeeper = False, m_isDefender = False,
     m_targetPos = vec3_splat 0, m_currentTargetSpeed = AI_MAX_SPEED\<rparr>"

definition setHomePosition :: "Vec3 \<Rightarrow> AIPlayer \<Rightarrow> AIPlayer" where
  "setHomePosition pos a =
     (let isGk = (\<bar>vx pos\<bar> > 40.0)
      in a\<lparr>m_homePosition := pos, m_position_ai := pos, m_isGoalkeeper := isGk,
            m_isDefender := (\<bar>vx pos\<bar> > 30.0 \<and> \<not> isGk)\<rparr>)"

definition setTeam :: "i32 \<Rightarrow> AIPlayer \<Rightarrow> AIPlayer" where
  "setTeam team a = a\<lparr>m_team := team\<rparr>"

text \<open>The last block of \<open>AIPlayer::update\<close> (the smooth rotation): the facing update.\<close>

definition AIPlayer_update_rotation :: "f32 \<Rightarrow> AIPlayer \<Rightarrow> AIPlayer" where
  "AIPlayer_update_rotation deltaTime a =
     (let rotDiff = wrap_up (wrap_down (m_targetRotation_ai a - m_rotation_ai a));
          rotT = 1.0 - exp (- AI_ROTATION_SPEED * deltaTime)
      in a\<lparr>m_rotation_ai := m_rotation_ai a + rotDiff * rotT\<rparr>)"

definition distanceToBall :: "Vec3 \<Rightarrow> AIPlayer \<Rightarrow> f32" where
  "distanceToBall ballPos a =
     (let toBall = (vsub ballPos (m_position_ai a))\<lparr>vy := 0\<rparr> in vlength toBall)"

text \<open>\<open>AIPlayer::handleAICollision\<close>: this player and the other one, both updated.\<close>

definition handleAICollision :: "AIPlayer \<Rightarrow> AIPlayer \<Rightarrow> AIPlayer \<times> AIPlayer" where
  "handleAICollision a other =
     (let toOther = (vsub (m_position_ai other) (m_position_ai a))\<lparr>vy := 0\<rparr>;
          dist = vlength toOther
      in if dist < 0.7 \<and> dist > 0.01 then
           let pushDir = vnormalize toOther;
               push = vscale (vscale pushDir (0.7 - dist)) 0.5
           in (a\<lparr>m_position_ai := vsub (m_position_ai a) push\<rparr>,
               other\<lparr>m_position_ai := vadd (m_position_ai other) push\<rparr>)
         else (a, other))"

text \<open>The horizontal (XZ) distance of two positions, as \<open>handleAICollision\<close> measures it.\<close>

definition horizontal_distance :: "Vec3 \<Rightarrow> Vec3 \<Rightarrow> f32" where
  "horizontal_distance p q = vlength ((vsub q p)\<lparr>vy := 0\<rparr>)"

text \<open>\<open>AIManager::createTeams\<close>: the roster \<open>m_players\<close>, in the order of the pushes.\<close>

definition newPlayer :: "Vec3 \<Rightarrow> i32 \<Rightarrow> AIPlayer" where
  "newPlayer home team = setTeam team (setHomePosition home AIPlayer_default)"

definition createTeams :: "f32 \<Rightarrow> AIPlayer list" where
  "createTeams fieldLength =
     [newPlayer (vec3 (- 45.0) 0 0) 0]
     @ map (\<lambda>i. newPlayer (vec3 (- 35.0) 0 (- 12.0 + i * 24.0)) 0) [0, 1]
     @ map (\<lambda>i. newPlayer (vec3 (- 15.0) 0 (- 15.0 + i * 30.0)) 0) [0, 1]
     @ [newPlayer (vec3 (- 5.0) 0 0) 0]
     @ [newPlayer (vec3 45.0 0 0) 1]
     @ map (\<lambda>i. newPlayer (vec3 35.0 0 (- 12.0 + i * 24.0)) 1) [0, 1]
     @ map (\<lambda>i. newPlayer (vec3 15.0 0 (- 15.0 + i * 30.0)) 1) [0, 1]"

text \<open>
  \<open>AIManager::findClosestChasers\<close>. The four locals of the search are a record; the
  search loop runs over the indices \<open>0, ..., size - 1\<close>; the roster is far shorter than
  \<open>2^31\<close>, so \<open>static_cast<i32>(i)\<close> is \<open>int i\<close>.
\<close>

record ChaserSearch =
  closestRedIdx :: int
  closestBlueIdx :: int
  closestRedDist :: f32
  closestBlueDist :: f32

definition search_init :: ChaserSearch where
  "search_init = \<lparr>closestRedIdx = - 1, closestBlueIdx = - 1,
                   closestRedDist = 999.0, closestBlueDist = 999.0\<rparr>"

definition search_step :: "Vec3 \<Rightarrow> AIPlayer list \<Rightarrow> ChaserSearch \<Rightarrow> nat \<Rightarrow> ChaserSearch" where
  "search_step ballPos players st i =
     (let dist = distanceToBall ballPos (players ! i);
          isGoalkeeper = (i = 0 \<or> i = 6)
      in if m_team (players ! i) = 0 \<and> \<not> isGoalkeeper then
           (if dist < closestRedDist st
            then st\<lparr>closestRedDist := dist, closestRedIdx := int i\<rparr> else st)
         else if m_team (players ! i) = 1 \<and> \<not> isGoalkeeper then
           (if dist < closestBlueDist st
            then st\<lparr>closestBlueDist := dist, closestBlueIdx := int i\<rparr> else st)
         else st)"

definition findClosestChasers :: "Vec3 \<Rightarrow> AIPlayer list \<Rightarrow> AIPlayer list" where
  "findClosestChasers ballPos players =
     (let st = foldl (search_step ballPos players) search_init [0..<length players]
      in map (\<lambda>i. (players ! i)\<lparr>m_isClosestChaser :=
                      (int i = closestRedIdx st \<or> int i = closestBlueIdx st)\<rparr>)
             [0..<length players])"

section \<open>Goal detection happens once per crossing\<close>

lemma checkGoal_flagged: "m_goalScored m \<Longrightarrow> checkGoal p m = (False, m)"
  by (simp add: checkGoal_def)

lemma checkGoal_calls_flagged:
  "m_goalScored m \<Longrightarrow> checkGoal_calls ps m = (replicate (length ps) False, m)"
  by (induction ps) (simp_all add: checkGoal_flagged)

lemma checkGoal_True_flags:
  "fst (checkGoal p m) \<Longrightarrow> m_goalScored (snd (checkGoal p m))"
  by (simp add: checkGoal_def Let_def split: if_splits)

text \<open>
  Claim C1. Once the goal-scored flag is set, every further call of \<open>checkGoal\<close>, at any
  ball positions and however many, returns false and leaves the whole match record (both
  scores, the flag, the celebration timer, the last scoring team) as it was. A call that
  returns true sets the flag, so the calls after it return false: one crossing is
  reported once. \<open>resetAfterGoal\<close> clears the flag again.
\<close>

theorem C1_checkGoal_once_per_crossing:
  "(m_goalScored m \<longrightarrow> checkGoal_calls ps m = (replicate (length ps) False, m))
   \<and> (fst (checkGoal p m0) \<longrightarrow>
        checkGoal_calls ps (snd (checkGoal p m0))
          = (replicate (length ps) False, snd (checkGoal p m0)))
   \<and> \<not> m_goalScored (fst (resetAfterGoal ball m))"
  by (simp add: checkGoal_calls_flagged checkGoal_True_flags resetAfterGoal_def)

theorem C1_checkGoal_once_per_crossing_witness:
  "m_goalScored (Match_default\<lparr>m_scoreRight := 1, m_goalScored := True,
                               m_celebrationTimer := 3.0, m_lastScoringTeam := 0\<rparr>)
   \<and> fst (checkGoal (vec3 53.5 1.0 0) Match_default)
   \<and> checkGoal_calls [vec3 53.5 1.0 0, vec3 54.0 1.0 0]
        (Match_default\<lparr>m_scoreRight := 1, m_goalScored := True,
                        m_celebrationTimer := 3.0, m_lastScoringTeam := 0\<rparr>)
       = ([False, False], Match_default\<lparr>m_scoreRight := 1, m_goalScored := True,
                            m_celebrationTimer := 3.0, m_lastScoringTeam := 0\<rparr>)
   \<and> checkGoal_calls [vec3 53.5 1.0 0, vec3 54.0 1.0 0]
        (snd (checkGoal (vec3 53.5 1.0 0) Match_default))
       = ([False, False], Match_default\<lparr>m_scoreRight := 1, m_goalScored := True,
                            m_celebrationTimer := 3.0, m_lastScoringTeam := 0\<rparr>)
   \<and> \<not> m_goalScored (fst (resetAfterGoal BallState_default
            (Match_default\<lparr>m_scoreRight := 1, m_goalScored := True,
                            m_celebrationTimer := 3.0, m_lastScoringTeam := 0\<rparr>)))"
proof -
  have scored: "checkGoal (vec3 53.5 1.0 0) Match_default
      = (True, Match_default\<lparr>m_scoreRight := 1, m_goalScored := True,
                              m_celebrationTimer := 3.0, m_lastScoringTeam := 0\<rparr>)"
    by (simp add: checkGoal_def Match_default_def vec3_def Ball_RADIUS_def BALL_RADIUS_def
        GOAL_CELEBRATION_DURATION_def)
  show ?thesis
    using C1_checkGoal_once_per_crossing
      [of "Match_default\<lparr>m_scoreRight := 1, m_goalScored := True,
                           m_celebrationTimer := 3.0, m_lastScoringTeam := 0\<rparr>"
          "[vec3 53.5 1.0 0, vec3 54.0 1.0 0]" "vec3 53.5 1.0 0" Match_default
          BallState_default]
    unfolding scored by (simp add: checkGoal_flagged resetAfterGoal_def)
qed

section \<open>Scores never go down\<close>

lemma sint_succ_i32:
  fixes x :: i32
  assumes "sint x < 2147483647"
  shows "sint (x + 1) = sint x + 1"
proof -
  have lo: "- 2147483648 \<le> sint x" using sint_ge [of x] by simp
  have "sint (x + 1) = signed_take_bit 31 (sint x + 1)"
    by (simp add: sint_word_add)
  also have "\<dots> = sint x + 1"
    by (rule signed_take_bit_int_eq_self) (use assms lo in simp_all)
  finally show ?thesis .
qed

lemma checkGoal_scores:
  "(m_scoreLeft (snd (checkGoal p m)) = m_scoreLeft m \<and> m_scoreRight (snd (checkGoal p m)) = m_scoreRight m \<and> \<not> fst (checkGoal p m))
   \<or> (m_scoreLeft (snd (checkGoal p m)) = m_scoreLeft m + 1 \<and> m_scoreRight (snd (checkGoal p m)) = m_scoreRight m \<and> fst (checkGoal p m))
   \<or> (m_scoreLeft (snd (checkGoal p m)) = m_scoreLeft m \<and> m_scoreRight (snd (checkGoal p m)) = m_scoreRight m + 1 \<and> fst (checkGoal p m))"
  by (simp add: checkGoal_def Let_def)

lemma call_match_scores:
  "(m_scoreLeft (call_match c m) = m_scoreLeft m \<or> m_scoreLeft (call_match c m) = m_scoreLeft m + 1)
   \<and> (m_scoreRight (call_match c m) = m_scoreRight m \<or> m_scoreRight (call_match c m) = m_scoreRight m + 1)"
proof (cases c)
  case (CallUpdate dt ball)
  then show ?thesis using checkGoal_scores [of "position ball" m]
    by (auto simp: Match_update_def resetAfterGoal_def Let_def)
next
  case (CallCheckGoal p)
  then show ?thesis using checkGoal_scores [of p m] by auto
next
  case (CallResetAfterGoal ball)
  then show ?thesis by (simp add: resetAfterGoal_def)
qed

lemma call_match_sint:
  assumes "sint (m_scoreLeft m) < 2147483647" "sint (m_scoreRight m) < 2147483647"
  shows "sint (m_scoreLeft m) \<le> sint (m_scoreLeft (call_match c m))
       \<and> sint (m_scoreLeft (call_match c m)) \<le> sint (m_scoreLeft m) + 1
       \<and> sint (m_scoreRight m) \<le> sint (m_scoreRight (call_match c m))
       \<and> sint (m_scoreRight (call_match c m)) \<le> sint (m_scoreRight m) + 1"
  using call_match_scores [of c m] sint_succ_i32 [OF assms(1)] sint_succ_i32 [OF assms(2)]
  by auto

lemma run_match_sint:
  "sint (m_scoreLeft m) + int (length cs) \<le> 2147483647 \<Longrightarrow>
   sint (m_scoreRight m) + int (length cs) \<le> 2147483647 \<Longrightarrow>
   sint (m_scoreLeft m) \<le> sint (m_scoreLeft (run_match cs m))
   \<and> sint (m_scoreRight m) \<le> sint (m_scoreRight (run_match cs m))"
proof (induction cs arbitrary: m)
  case Nil
  then show ?case by simp
next
  case (Cons c cs)
  have l: "sint (m_scoreLeft m) < 2147483647" and r: "sint (m_scoreRight m) < 2147483647"
    using Cons.prems by simp_all
  note st = call_match_sint [OF l r, of c]
  have "sint (m_scoreLeft (call_match c m)) + int (length cs) \<le> 2147483647"
       "sint (m_scoreRight (call_match c m)) + int (length cs) \<le> 2147483647"
    using st Cons.prems by simp_all
  from Cons.IH [OF this] st show ?case by simp
qed

text \<open>
  Claim C9. Over any sequence of \<open>update\<close>, \<open>checkGoal\<close> and \<open>resetAfterGoal\<close> calls
  that stays inside the \<open>i32\<close> range (the scores plus the number of calls do not pass
  \<open>2^31 - 1\<close>, beyond which the increment is undefined in C++), neither score goes down. A
  \<open>checkGoal\<close> that returns true adds one to exactly one score and keeps the other; one
  that returns false keeps both; \<open>resetAfterGoal\<close> keeps both; \<open>reset\<close> sets both to 0.
\<close>

theorem C9_scores_monotone:
  "(sint (m_scoreLeft m) + int (length cs) \<le> 2147483647
      \<and> sint (m_scoreRight m) + int (length cs) \<le> 2147483647 \<longrightarrow>
      sint (m_scoreLeft m) \<le> sint (m_scoreLeft (run_match cs m))
      \<and> sint (m_scoreRight m) \<le> sint (m_scoreRight (run_match cs m)))
   \<and> (if fst (checkGoal p m)
       then (m_scoreRight (snd (checkGoal p m)) = m_scoreRight m + 1
               \<and> m_scoreLeft (snd (checkGoal p m)) = m_scoreLeft m)
            \<or> (m_scoreLeft (snd (checkGoal p m)) = m_scoreLeft m + 1
               \<and> m_scoreRight (snd (checkGoal p m)) = m_scoreRight m)
       else m_scoreLeft (snd (checkGoal p m)) = m_scoreLeft m
            \<and> m_scoreRight (snd (checkGoal p m)) = m_scoreRight m)
   \<and> m_scoreLeft (fst (resetAfterGoal ball m)) = m_scoreLeft m
   \<and> m_scoreRight (fst (resetAfterGoal ball m)) = m_scoreRight m
   \<and> m_scoreLeft (Match_reset m) = 0 \<and> m_scoreRight (Match_reset m) = 0"
proof -
  have run: "sint (m_scoreLeft m) + int (length cs) \<le> 2147483647
      \<and> sint (m_scoreRight m) + int (length cs) \<le> 2147483647 \<longrightarrow>
      sint (m_scoreLeft m) \<le> sint (m_scoreLeft (run_match cs m))
      \<and> sint (m_scoreRight m) \<le> sint (m_scoreRight (run_match cs m))"
    using run_match_sint [of m cs] by blast
  have one: "if fst (checkGoal p m)
       then (m_scoreRight (snd (checkGoal p m)) = m_scoreRight m + 1
               \<and> m_scoreLeft (snd (checkGoal p m)) = m_scoreLeft m)
            \<or> (m_scoreLeft (snd (checkGoal p m)) = m_scoreLeft m + 1
               \<and> m_scoreRight (snd (checkGoal p m)) = m_scoreRight m)
       else m_scoreLeft (snd (checkGoal p m)) = m_scoreLeft m
            \<and> m_scoreRight (snd (checkGoal p m)) = m_scoreRight m"
    using checkGoal_scores [of p m] by auto
  have rest: "m_scoreLeft (fst (resetAfterGoal ball m)) = m_scoreLeft m
   \<and> m_scoreRight (fst (resetAfterGoal ball m)) = m_scoreRight m
   \<and> m_scoreLeft (Match_reset m) = 0 \<and> m_scoreRight (Match_reset m) = 0"
    by (simp add: resetAfterGoal_def Match_reset_def)
  from run one rest show ?thesis by blast
qed

lemma run_match_example:
  "run_match [CallCheckGoal (vec3 53.5 1.0 0), CallUpdate 3.0 BallState_default,
              CallCheckGoal (vec3 (- 53.5) 1.0 0)] Match_default
   = Match_default\<lparr>m_scoreLeft := 1, m_scoreRight := 1, m_goalScored := True,
        m_celebrationTimer := 3.0, m_lastScoringTeam := 1\<rparr>"
  by (simp add: checkGoal_def Match_update_def resetAfterGoal_def Match_default_def vec3_def
      Ball_RADIUS_def BALL_RADIUS_def GOAL_CELEBRATION_DURATION_def Let_def)

theorem C9_scores_monotone_witness:
  "sint (m_scoreLeft Match_default) + int (length [CallCheckGoal (vec3 53.5 1.0 0),
        CallUpdate 3.0 BallState_default, CallCheckGoal (vec3 (- 53.5) 1.0 0)]) \<le> 2147483647
   \<and> sint (m_scoreRight Match_default) + int (length [CallCheckGoal (vec3 53.5 1.0 0),
        CallUpdate 3.0 BallState_default, CallCheckGoal (vec3 (- 53.5) 1.0 0)]) \<le> 2147483647
   \<and> sint (m_scoreLeft Match_default)
       \<le> sint (m_scoreLeft (run_match [CallCheckGoal (vec3 53.5 1.0 0),
             CallUpdate 3.0 BallState_default, CallCheckGoal (vec3 (- 53.5) 1.0 0)] Match_default))
   \<and> sint (m_scoreRight Match_default)
       \<le> sint (m_scoreRight (run_match [CallCheckGoal (vec3 53.5 1.0 0),
             CallUpdate 3.0 BallState_default, CallCheckGoal (vec3 (- 53.5) 1.0 0)] Match_default))
   \<and> m_scoreLeft (run_match [CallCheckGoal (vec3 53.5 1.0 0),
             CallUpdate 3.0 BallState_default, CallCheckGoal (vec3 (- 53.5) 1.0 0)] Match_default) = 1
   \<and> m_scoreRight (run_match [CallCheckGoal (vec3 53.5 1.0 0),
             CallUpdate 3.0 BallState_default, CallCheckGoal (vec3 (- 53.5) 1.0 0)] Match_default) = 1"
  using C9_scores_monotone [of Match_default "[CallCheckGoal (vec3 53.5 1.0 0),
        CallUpdate 3.0 BallState_default, CallCheckGoal (vec3 (- 53.5) 1.0 0)]"]
  unfolding run_match_example by (simp add: Match_default_def)

section \<open>The ground clamp\<close>

lemma handleGroundCollision_height:
  "BALL_RADIUS \<le> vy (position (handleGroundCollision b))"
  by (simp add: handleGroundCollision_def Let_def)

lemma applyRollingFriction_position:
  "position (applyRollingFriction b dt) = position b"
  by (simp add: applyRollingFriction_def Let_def)

lemma handleFieldBoundaries_height:
  "vy (position (handleFieldBoundaries b bounds)) = vy (position b)"
  by (simp add: handleFieldBoundaries_def Let_def)

text \<open>
  Claim C2. After one \<open>BallPhysics::update\<close> the height of the ball is at least the
  resting height \<open>BALL_RADIUS\<close>, whatever the state, the bounds and the time step were (so
  in particular for every \<open>dt \<ge> 0\<close>).
\<close>

theorem C2_ground_clamp:
  "BALL_RADIUS \<le> vy (position (BallPhysics_update ball dt bounds))"
  unfolding BallPhysics_update_def Let_def
  by (simp only: handleFieldBoundaries_height applyRollingFriction_position
      handleGroundCollision_height)

section \<open>The Magnus guard\<close>

lemma update_gravity_drag_spin:
  "angularVelocity (update_gravity_drag ball dt) = angularVelocity ball"
  by (simp add: update_gravity_drag_def applyGravity_def applyAirDrag_def Let_def)

lemma update_magnus_skipped:
  "vlength (angularVelocity ball) \<le> 0.1 \<or> vlength (velocity ball) \<le> 1.0 \<or> \<not> isInAir ball \<Longrightarrow>
   update_magnus (isInAir ball) (vlength (velocity ball)) (update_gravity_drag ball dt) dt
     = update_gravity_drag ball dt"
  by (auto simp: update_magnus_def update_gravity_drag_spin)

text \<open>
  Claim C6. Whenever the spin magnitude is at most 0.1, or the speed is at most 1.0, or
  the ball is not airborne (all three read from the state the update is called on),
  \<open>BallPhysics::update\<close> computes exactly what its pipeline computes with the Magnus step
  left out: gravity and drag, spin decay, integration, visual rotation, ground collision,
  rolling friction, field boundaries. So no Magnus force enters the velocity; spin exactly
  0.1 and speed exactly 1.0 are included.
\<close>

theorem C6_magnus_guard:
  "vlength (angularVelocity ball) \<le> 0.1 \<or> vlength (velocity ball) \<le> 1.0 \<or> \<not> isInAir ball \<Longrightarrow>
   BallPhysics_update ball dt bounds =
     (let ballSpeed = vlength (velocity ball);
          b2 = update_gravity_drag ball dt;
          b4 = applySpinDecay b2 dt;
          b5 = b4\<lparr>position := vadd (position b4) (vscale (velocity b4) dt)\<rparr>;
          b6 = (if ballSpeed > 0.1
                then b5\<lparr>rotationAngle := rotationAngle b5 + ballSpeed * dt * 3.0\<rparr>
                else b5);
          b7 = handleGroundCollision b6;
          b8 = applyRollingFriction b7 dt
      in handleFieldBoundaries b8 bounds)"
  unfolding BallPhysics_update_def Let_def by (simp only: update_magnus_skipped)

text \<open>An airborne ball with spin exactly 0.1 about the vertical axis, moving at 20 m/s.\<close>

theorem C6_magnus_guard_witness:
  "vlength (angularVelocity \<lparr>position = vec3 0 2.0 0, velocity = vec3 20.0 0 0,
       angularVelocity = vec3 0 0.1 0, rotationAngle = 0\<rparr>) = 0.1
   \<and> isInAir \<lparr>position = vec3 0 2.0 0, velocity = vec3 20.0 0 0,
       angularVelocity = vec3 0 0.1 0, rotationAngle = 0\<rparr>
   \<and> vlength (velocity \<lparr>position = vec3 0 2.0 0, velocity = vec3 20.0 0 0,
       angularVelocity = vec3 0 0.1 0, rotationAngle = 0\<rparr>) = 20.0
   \<and> BallPhysics_update \<lparr>position = vec3 0 2.0 0, velocity = vec3 20.0 0 0,
       angularVelocity = vec3 0 0.1 0, rotationAngle = 0\<rparr> (1 / 60) FieldBounds_default =
     (let ballSpeed = vlength (velocity \<lparr>position = vec3 0 2.0 0, velocity = vec3 20.0 0 0,
            angularVelocity = vec3 0 0.1 0, rotationAngle = 0\<rparr>);
          b2 = update_gravity_drag \<lparr>position = vec3 0 2.0 0, velocity = vec3 20.0 0 0,
            angularVelocity = vec3 0 0.1 0, rotationAngle = 0\<rparr> (1 / 60);
          b4 = applySpinDecay b2 (1 / 60);
          b5 = b4\<lparr>position := vadd (position b4) (vscale (velocity b4) (1 / 60))\<rparr>;
          b6 = (if ballSpeed > 0.1
                then b5\<lparr>rotationAngle := rotationAngle b5 + ballSpeed * (1 / 60) * 3.0\<rparr>
                else b5);
          b7 = handleGroundCollision b6;
          b8 = applyRollingFriction b7 (1 / 60)
      in handleFieldBoundaries b8 FieldBounds_default)"
proof -
  let ?B = "\<lparr>position = vec3 0 2.0 0, velocity = vec3 20.0 0 0,
       angularVelocity = vec3 0 0.1 0, rotationAngle = 0\<rparr>"
  have "sqrt (1 / 100) = 1 / (10::real)"
    by (rule real_sqrt_unique) (simp_all add: power2_eq_square)
  then have w: "vlength (angularVelocity ?B) = 0.1"
    by (simp add: vlength_def vdot_def vec3_def)
  have "sqrt 400 = (20::real)"
    by (rule real_sqrt_unique) (simp_all add: power2_eq_square)
  then have v: "vlength (velocity ?B) = 20.0"
    by (simp add: vlength_def vdot_def vec3_def)
  have a: "isInAir ?B" by (simp add: isInAir_def BALL_RADIUS_def vec3_def)
  have prem: "vlength (angularVelocity ?B) \<le> 0.1 \<or> vlength (velocity ?B) \<le> 1.0
      \<or> \<not> isInAir ?B"
    using w by simp
  from C6_magnus_guard [OF prem, of "1 / 60" FieldBounds_default] w v a
  show ?thesis by (intro conjI)
qed

section \<open>The ball at rest\<close>

lemma vlength_zero: "vlength (vec3 0 0 0) = 0"
  by (simp add: vlength_def vdot_def vec3_def)

lemma rest_step_boundaries:
  assumes v: "velocity ball = vec3 0 0 0" and w: "angularVelocity ball = vec3 0 0 0"
    and h: "vy (position ball) = BALL_RADIUS"
    and dt: "0 \<le> dt" "GRAVITY * dt \<le> 0.5"
  shows "BallPhysics_update ball dt bounds = handleFieldBoundaries ball bounds"
proof -
  have air: "\<not> isInAir ball" using h by (simp add: isInAir_def BALL_RADIUS_def)
  have sp: "vlength (velocity ball) = 0" using v by (simp add: vlength_zero)
  let ?b1 = "applyGravity ball dt"
  have b2: "update_gravity_drag ball dt = ?b1"
    using air by (simp add: update_gravity_drag_def)
  have b3: "update_magnus (isInAir ball) s ?b1 dt = ?b1" for s
    using air by (simp add: update_magnus_def)
  have b4: "applySpinDecay ?b1 dt = ?b1"
    using air w by (simp add: applySpinDecay_def applyGravity_def isInAir_def vscale_def vec3_def)
  let ?b5 = "?b1\<lparr>position := vadd (position ?b1) (vscale (velocity ?b1) dt)\<rparr>"
  have b7: "handleGroundCollision ?b5 = ball"
  proof (cases "dt = 0")
    case True
    then show ?thesis using v h
      by (simp add: handleGroundCollision_def applyGravity_def vadd_def vscale_def vec3_def)
  next
    case False
    then have "0 < GRAVITY * dt * dt" using dt by (simp add: GRAVITY_def)
    then show ?thesis using v h dt(2)
      by (simp add: handleGroundCollision_def applyGravity_def vadd_def vscale_def vec3_def Let_def)
  qed
  have b8: "applyRollingFriction ball dt = ball"
    using v h by (simp add: applyRollingFriction_def vlength_zero vec3_def Let_def)
  show ?thesis
    unfolding BallPhysics_update_def Let_def b2 b3 b4 sp
    by (simp add: b7 b8)
qed






text \<open>
  Outside the lines the resting ball is moved even at a small time step: one update pulls
  a ball lying beyond the end line, beside the goal, back onto the line.
\<close>

lemma rest_outside_field_moves:
  "vx (position (BallPhysics_update
      \<lparr>position = vec3 60.0 0.22 10.0, velocity = vec3 0 0 0, angularVelocity = vec3 0 0 0,
       rotationAngle = 0\<rparr> (1 / 60) FieldBounds_default)) = 52.5"
proof -
  let ?B = "\<lparr>position = vec3 60.0 0.22 10.0, velocity = vec3 0 0 0,
       angularVelocity = vec3 0 0 0, rotationAngle = 0\<rparr>"
  have "BallPhysics_update ?B (1 / 60) FieldBounds_default
      = handleFieldBoundaries ?B FieldBounds_default"
    by (rule rest_step_boundaries) (simp_all add: BALL_RADIUS_def GRAVITY_def vec3_def)
  then show ?thesis
    by (simp add: handleFieldBoundaries_def physics_inGoalArea_def FieldBounds_default_def
        copysign_def vec3_def)
qed

section \<open>The human player's kick\<close>

lemma vdot_vscale: "vdot (vscale a s) (vscale a s) = s\<^sup>2 * vdot a a"
  by (simp add: vdot_def vscale_def power2_eq_square algebra_simps)

lemma vlength_vscale: "vlength (vscale a s) = \<bar>s\<bar> * vlength a"
  by (simp add: vlength_def vdot_vscale real_sqrt_mult)

lemma vnormalize_unit: "vdot a a = 1 \<Longrightarrow> vnormalize a = a"
  by (simp add: vnormalize_def vscale_def)

lemma vdot_vnormalize:
  assumes "0 < vdot a a"
  shows "vdot (vnormalize a) (vnormalize a) = 1"
proof -
  have "(1 / sqrt (vdot a a))\<^sup>2 = 1 / vdot a a"
    using assms by (simp add: power_divide)
  then have "vdot (vnormalize a) (vnormalize a) = 1 / vdot a a * vdot a a"
    by (simp only: vnormalize_def vdot_vscale)
  then show ?thesis using assms by simp
qed

lemma kickDir_dot:
  "vdot (vec3 (- sin r) 0.3 (- cos r)) (vec3 (- sin r) 0.3 (- cos r)) = 1.09"
proof -
  have "sin r * sin r + cos r * cos r = 1"
    using sin_cos_squared_add [of r] by (simp add: power2_eq_square)
  then show ?thesis by (simp add: vdot_def vec3_def)
qed

lemma Ball_kick_kickDir:
  "Ball_kick (vnormalize (vec3 (- sin r) 0.3 (- cos r))) kp spinY spinX ball
   = ball\<lparr>velocity := vscale (vec3 (- sin r) 0.3 (- cos r)) (kp / sqrt 1.09),
          angularVelocity := vec3 spinX spinY 0\<rparr>"
proof -
  let ?d = "vec3 (- sin r) 0.3 (- cos r)"
  have "vdot (vnormalize ?d) (vnormalize ?d) = 1"
    by (rule vdot_vnormalize) (simp add: kickDir_dot)
  then have "vnormalize (vnormalize ?d) = vnormalize ?d" by (rule vnormalize_unit)
  moreover have "vscale (vnormalize ?d) kp = vscale ?d (kp / sqrt 1.09)"
    by (simp add: vnormalize_def kickDir_dot) (simp add: vscale_def)
  ultimately show ?thesis by (simp add: Ball_kick_def)
qed

lemma kick_speed:
  "0 \<le> kp \<Longrightarrow> vlength (vscale (vec3 (- sin r) 0.3 (- cos r)) (kp / sqrt 1.09)) = kp"
  by (simp add: vlength_vscale) (simp add: vlength_def kickDir_dot)

text \<open>
  Claim C4, as the code has it. \<open>Player::tryKick\<close> fails exactly when the ball is at
  distance 1.5 or more from the player (there is no cooldown test), and then returns false
  with the player and the ball untouched. Otherwise it returns true, sets \<open>m_isKicking\<close>
  and the 0.3 s kick-animation timer, sets the spin to \<open>(-5 if sprinting else 0, spinY, 0)\<close>
  and sets the velocity to the facing direction \<open>(-sin r, 0.3, -cos r)\<close> scaled to
  magnitude 15 (22 when sprinting), whose vertical component is positive.
\<close>

theorem C4_tryKick:
  "Player_tryKick ball sprinting spinY p =
     (if vlength (vsub (position ball) (m_position p)) \<ge> 1.5 then (False, p, ball)
      else (True, p\<lparr>m_isKicking := True, m_kickAnimationTimer := 0.3\<rparr>,
            ball\<lparr>velocity := vscale (vec3 (- sin (m_rotation p)) 0.3 (- cos (m_rotation p)))
                                ((if sprinting then 22.0 else 15.0) / sqrt 1.09),
                 angularVelocity := vec3 (if sprinting then - 5.0 else 0) spinY 0\<rparr>))
   \<and> vlength (vscale (vec3 (- sin (m_rotation p)) 0.3 (- cos (m_rotation p)))
                ((if sprinting then 22.0 else 15.0) / sqrt 1.09))
       = (if sprinting then 22.0 else 15.0)
   \<and> 0 < vy (vscale (vec3 (- sin (m_rotation p)) 0.3 (- cos (m_rotation p)))
                ((if sprinting then 22.0 else 15.0) / sqrt 1.09))"
proof -
  have up: "0 < vy (vscale (vec3 (- sin (m_rotation p)) 0.3 (- cos (m_rotation p)))
                ((if sprinting then 22.0 else 15.0) / sqrt 1.09))"
    by (simp add: vscale_def vec3_def)
  have sp: "vlength (vscale (vec3 (- sin (m_rotation p)) 0.3 (- cos (m_rotation p)))
                ((if sprinting then 22.0 else 15.0) / sqrt 1.09))
       = (if sprinting then 22.0 else 15.0)"
    by (rule kick_speed) simp
  have run: "Player_tryKick ball sprinting spinY p =
     (if vlength (vsub (position ball) (m_position p)) \<ge> 1.5 then (False, p, ball)
      else (True, p\<lparr>m_isKicking := True, m_kickAnimationTimer := 0.3\<rparr>,
            ball\<lparr>velocity := vscale (vec3 (- sin (m_rotation p)) 0.3 (- cos (m_rotation p)))
                                ((if sprinting then 22.0 else 15.0) / sqrt 1.09),
                 angularVelocity := vec3 (if sprinting then - 5.0 else 0) spinY 0\<rparr>))"
    unfolding Player_tryKick_def Player_KICK_RANGE_def Let_def Ball_kick_kickDir by simp
  from run sp up show ?thesis by (intro conjI)
qed

text \<open>
  The kick is not held back while the kick-animation timer of an earlier kick is still
  running: with the timer at 0.3 and the ball half a metre ahead, \<open>tryKick\<close> returns true.
\<close>

theorem C4_no_cooldown_counterexample:
  "0 < m_kickAnimationTimer (Player_default\<lparr>m_isKicking := True, m_kickAnimationTimer := 0.3\<rparr>)
   \<and> m_isKicking (Player_default\<lparr>m_isKicking := True, m_kickAnimationTimer := 0.3\<rparr>)
   \<and> fst (Player_tryKick (BallState_default\<lparr>position := vec3 0 0.22 4.5\<rparr>) False 0
            (Player_default\<lparr>m_isKicking := True, m_kickAnimationTimer := 0.3\<rparr>))"
proof -
  have "sqrt (0.2984) < (1.5::real)"
    by (rule real_less_lsqrt) (simp_all add: power2_eq_square)
  then have "vlength (vsub (position (BallState_default\<lparr>position := vec3 0 0.22 4.5\<rparr>))
      (m_position (Player_default\<lparr>m_isKicking := True, m_kickAnimationTimer := 0.3\<rparr>))) < 1.5"
    by (simp add: vlength_def vdot_def vsub_def vec3_def Player_default_def)
  then show ?thesis
    by (simp add: Player_tryKick_def Player_KICK_RANGE_def Let_def)
qed

section \<open>Separation of two AI players\<close>

lemma handleAICollision_apart:
  fixes a other :: AIPlayer
  defines "d \<equiv> horizontal_distance (m_position_ai a) (m_position_ai other)"
  assumes lo: "0.01 < d" and hi: "d < 0.7"
  shows "handleAICollision a other =
     (a\<lparr>m_position_ai := vsub (m_position_ai a)
           (vscale ((vsub (m_position_ai other) (m_position_ai a))\<lparr>vy := 0\<rparr>) ((0.7 - d) / 2 / d))\<rparr>,
      other\<lparr>m_position_ai := vadd (m_position_ai other)
           (vscale ((vsub (m_position_ai other) (m_position_ai a))\<lparr>vy := 0\<rparr>) ((0.7 - d) / 2 / d))\<rparr>)"
proof -
  let ?t = "(vsub (m_position_ai other) (m_position_ai a))\<lparr>vy := 0\<rparr>"
  have len: "vlength ?t = d" by (simp add: horizontal_distance_def d_def)
  then have sq: "sqrt (vdot ?t ?t) = d" by (simp add: vlength_def)
  have "vscale (vscale (vnormalize ?t) (0.7 - d)) 0.5 = vscale ?t ((0.7 - d) / 2 / d)"
    unfolding vnormalize_def sq by (simp add: vscale_def)
  then show ?thesis
    using lo hi unfolding handleAICollision_def Let_def len by simp
qed

lemma handleAICollision_far:
  "horizontal_distance (m_position_ai a) (m_position_ai other) \<le> 0.01
   \<or> 0.7 \<le> horizontal_distance (m_position_ai a) (m_position_ai other)
   \<Longrightarrow> handleAICollision a other = (a, other)"
  by (auto simp: handleAICollision_def horizontal_distance_def Let_def)

text \<open>
  Claim C10. Let \<open>d\<close> be the horizontal (XZ) distance of two AI players. When
  \<open>0.01 < d < 0.7\<close>, \<open>handleAICollision\<close> changes only the two positions: each player
  moves by \<open>(0.7 - d) / 2\<close>, in opposite directions along the horizontal line between
  them, the sum (so the midpoint) of the positions is kept and the horizontal distance
  afterwards is 0.7. When \<open>d \<le> 0.01\<close> or \<open>d \<ge> 0.7\<close> nothing changes.
\<close>

theorem C10_handleAICollision:
  fixes a other :: AIPlayer
  defines "P \<equiv> m_position_ai a" and "Q \<equiv> m_position_ai other"
  defines "d \<equiv> horizontal_distance P Q"
  defines "P' \<equiv> m_position_ai (fst (handleAICollision a other))"
    and "Q' \<equiv> m_position_ai (snd (handleAICollision a other))"
  shows "if 0.01 < d \<and> d < 0.7
         then handleAICollision a other = (a\<lparr>m_position_ai := P'\<rparr>, other\<lparr>m_position_ai := Q'\<rparr>)
              \<and> vsub Q' Q = vscale ((vsub Q P)\<lparr>vy := 0\<rparr>) ((0.7 - d) / 2 / d)
              \<and> vsub P' P = vscale ((vsub Q P)\<lparr>vy := 0\<rparr>) (- ((0.7 - d) / 2 / d))
              \<and> vlength (vsub P' P) = (0.7 - d) / 2
              \<and> vlength (vsub Q' Q) = (0.7 - d) / 2
              \<and> vadd P' Q' = vadd P Q
              \<and> horizontal_distance P' Q' = 0.7
         else handleAICollision a other = (a, other)"
proof (cases "0.01 < d \<and> d < 0.7")
  case False
  then have "handleAICollision a other = (a, other)"
    using handleAICollision_far [of a other] by (auto simp: d_def P_def Q_def)
  with False show ?thesis by (simp only: if_False)
next
  case True
  let ?t = "(vsub Q P)\<lparr>vy := 0\<rparr>"
  define k where "k = (0.7 - d) / 2 / d"
  have dlen: "vlength ?t = d" by (simp add: d_def horizontal_distance_def)
  have k: "0 < k" "k * d = (0.7 - d) / 2" using True by (simp_all add: k_def)
  have run: "handleAICollision a other
      = (a\<lparr>m_position_ai := vsub P (vscale ?t k)\<rparr>, other\<lparr>m_position_ai := vadd Q (vscale ?t k)\<rparr>)"
    using handleAICollision_apart [of a other] True unfolding d_def P_def Q_def k_def by blast
  have P': "P' = vsub P (vscale ?t k)" and Q': "Q' = vadd Q (vscale ?t k)"
    by (simp_all add: P'_def Q'_def run)
  have mQ: "vsub Q' Q = vscale ?t k" by (simp add: Q' vsub_def vadd_def vscale_def)
  have mP: "vsub P' P = vscale ?t (- k)" by (simp add: P' vsub_def vscale_def)
  have lQ: "vlength (vsub Q' Q) = (0.7 - d) / 2"
    unfolding mQ vlength_vscale dlen using k by simp
  have lP: "vlength (vsub P' P) = (0.7 - d) / 2"
    unfolding mP vlength_vscale dlen using k by simp
  have mid: "vadd P' Q' = vadd P Q" by (simp add: P' Q' vsub_def vadd_def)
  have "(vsub Q' P')\<lparr>vy := 0\<rparr> = vscale ?t (1 + 2 * k)"
    by (simp add: P' Q' vsub_def vadd_def vscale_def algebra_simps)
  then have "horizontal_distance P' Q' = \<bar>1 + 2 * k\<bar> * d"
    by (simp only: horizontal_distance_def vlength_vscale dlen)
  also have "\<dots> = d + 2 * (k * d)" using k(1) by (simp add: algebra_simps)
  also have "\<dots> = 0.7" unfolding k(2) by (simp add: field_simps)
  finally have apart: "horizontal_distance P' Q' = 0.7" .
  have "handleAICollision a other = (a\<lparr>m_position_ai := P'\<rparr>, other\<lparr>m_position_ai := Q'\<rparr>)"
    by (simp add: run P' Q')
  with True mQ mP lP lQ mid apart show ?thesis by (simp add: k_def)
qed

text \<open>Two players half a metre apart end up 0.7 apart, each moved by 0.1.\<close>

theorem C10_handleAICollision_witness:
  "horizontal_distance (m_position_ai AIPlayer_default)
      (m_position_ai (AIPlayer_default\<lparr>m_position_ai := vec3 0.3 0 0.4\<rparr>)) = 0.5
   \<and> horizontal_distance
        (m_position_ai (fst (handleAICollision AIPlayer_default
            (AIPlayer_default\<lparr>m_position_ai := vec3 0.3 0 0.4\<rparr>))))
        (m_position_ai (snd (handleAICollision AIPlayer_default
            (AIPlayer_default\<lparr>m_position_ai := vec3 0.3 0 0.4\<rparr>)))) = 0.7
   \<and> vlength (vsub
        (m_position_ai (fst (handleAICollision AIPlayer_default
            (AIPlayer_default\<lparr>m_position_ai := vec3 0.3 0 0.4\<rparr>))))
        (m_position_ai AIPlayer_default)) = 0.1"
proof -
  have "sqrt (1 / 4) = 1 / (2::real)"
    by (rule real_sqrt_unique) (simp_all add: power2_eq_square)
  then have d: "horizontal_distance (m_position_ai AIPlayer_default)
      (m_position_ai (AIPlayer_default\<lparr>m_position_ai := vec3 0.3 0 0.4\<rparr>)) = 0.5"
    by (simp add: horizontal_distance_def vlength_def vdot_def vsub_def vec3_def vec3_splat_def
        AIPlayer_default_def)
  let ?o = "AIPlayer_default\<lparr>m_position_ai := vec3 0.3 0 0.4\<rparr>"
  let ?d = "horizontal_distance (m_position_ai AIPlayer_default) (m_position_ai ?o)"
  have near: "0.01 < ?d \<and> ?d < 0.7" unfolding d by simp
  have "horizontal_distance
          (m_position_ai (fst (handleAICollision AIPlayer_default ?o)))
          (m_position_ai (snd (handleAICollision AIPlayer_default ?o))) = 0.7
      \<and> vlength (vsub (m_position_ai (fst (handleAICollision AIPlayer_default ?o)))
            (m_position_ai AIPlayer_default)) = (0.7 - ?d) / 2"
    using C10_handleAICollision [of AIPlayer_default ?o, unfolded if_P [OF near]]
    by blast
  then show ?thesis unfolding d by simp
qed

section \<open>The two boundary layers\<close>

lemma inGoalArea_same:
  "goalWidth bounds = m_goalWidth m \<Longrightarrow> goalHeight bounds = m_goalHeight m \<Longrightarrow>
   physics_inGoalArea bounds pos = match_inGoalArea m pos"
  by (simp add: physics_inGoalArea_def match_inGoalArea_def)

lemma handleFieldBoundaries_effect:
  "vx (velocity (handleFieldBoundaries ball bounds))
     = (if \<bar>vx (position ball)\<bar> > length_b bounds / 2
           \<and> \<not> physics_inGoalArea bounds (position ball)
        then - vx (velocity ball) * 0.5 else vx (velocity ball))"
  "vz (velocity (handleFieldBoundaries ball bounds))
     = (if \<bar>vz (position ball)\<bar> > width bounds / 2 + 0.5
        then - vz (velocity ball) * 0.5 else vz (velocity ball))"
  "angularVelocity (handleFieldBoundaries ball bounds)
     = vscale (angularVelocity ball)
         ((if \<bar>vx (position ball)\<bar> > length_b bounds / 2
               \<and> \<not> physics_inGoalArea bounds (position ball) then 0.5 else 1)
          * (if \<bar>vz (position ball)\<bar> > width bounds / 2 + 0.5 then 0.5 else 1))"
  by (simp_all add: handleFieldBoundaries_def Let_def vscale_def)

lemma handleBoundaryCollision_effect:
  "vz (velocity (handleBoundaryCollision ball m))
     = (if vz (position ball) < - (m_fieldWidth m / 2) + Ball_RADIUS
        then \<bar>vz (velocity ball)\<bar> * 0.6
        else if vz (position ball) > m_fieldWidth m / 2 - Ball_RADIUS
        then - \<bar>vz (velocity ball)\<bar> * 0.6 else vz (velocity ball))"
  "vx (velocity (handleBoundaryCollision ball m))
     = (if \<not> match_inGoalArea m (position ball)
           \<and> vx (position ball) < - (m_fieldLength m / 2) + Ball_RADIUS
        then \<bar>vx (velocity ball)\<bar> * 0.6
        else if \<not> match_inGoalArea m (position ball)
           \<and> vx (position ball) > m_fieldLength m / 2 - Ball_RADIUS
        then - \<bar>vx (velocity ball)\<bar> * 0.6 else vx (velocity ball))"
  "angularVelocity (handleBoundaryCollision ball m) = angularVelocity ball"
  by (simp_all add: handleBoundaryCollision_def Let_def)

lemma layers_differ:
  "handleFieldBoundaries \<lparr>position = vec3 0 0.22 34.6, velocity = vec3 0 0 2.0,
       angularVelocity = vec3 0 1.0 0, rotationAngle = 0\<rparr> FieldBounds_default
     = \<lparr>position = vec3 0 0.22 34.5, velocity = vec3 0 0 (- 1.0),
        angularVelocity = vec3 0 0.5 0, rotationAngle = 0\<rparr>"
  "handleBoundaryCollision \<lparr>position = vec3 0 0.22 34.6, velocity = vec3 0 0 2.0,
       angularVelocity = vec3 0 1.0 0, rotationAngle = 0\<rparr> Match_default
     = \<lparr>position = vec3 0 0.22 33.78, velocity = vec3 0 0 (- 1.2),
        angularVelocity = vec3 0 1.0 0, rotationAngle = 0\<rparr>"
  by (simp_all add: handleFieldBoundaries_def handleBoundaryCollision_def
      physics_inGoalArea_def match_inGoalArea_def FieldBounds_default_def Match_default_def
      copysign_def vscale_def vec3_def Ball_RADIUS_def BALL_RADIUS_def Let_def)

text \<open>
  Claim C7, as the code has it. The two layers are not equivalent, but their goal-window
  tests are the same test (\<open>|z| < goalWidth / 2\<close> and \<open>y < goalHeight\<close>, on equal
  dimensions). \<open>BallPhysics::handleFieldBoundaries\<close> acts beyond \<open>|x| > length / 2\<close>
  (outside the window) and \<open>|z| > width / 2 + 0.5\<close>: it negates the velocity component
  and halves it, and halves the angular velocity once per line crossed.
  \<open>Match::handleBoundaryCollision\<close> acts within one ball radius of the lines: it sets the
  component to 0.6 of its magnitude, pointing back into the field, and never changes
  the angular velocity. On the ball shown the two give different states.
\<close>

theorem C7_boundary_layers:
  "(goalWidth bounds = m_goalWidth m \<and> goalHeight bounds = m_goalHeight m
      \<longrightarrow> physics_inGoalArea bounds pos = match_inGoalArea m pos)
   \<and> vx (velocity (handleFieldBoundaries ball bounds))
     = (if \<bar>vx (position ball)\<bar> > length_b bounds / 2
           \<and> \<not> physics_inGoalArea bounds (position ball)
        then - vx (velocity ball) * 0.5 else vx (velocity ball))
   \<and> vz (velocity (handleFieldBoundaries ball bounds))
     = (if \<bar>vz (position ball)\<bar> > width bounds / 2 + 0.5
        then - vz (velocity ball) * 0.5 else vz (velocity ball))
   \<and> angularVelocity (handleFieldBoundaries ball bounds)
     = vscale (angularVelocity ball)
         ((if \<bar>vx (position ball)\<bar> > length_b bounds / 2
               \<and> \<not> physics_inGoalArea bounds (position ball) then 0.5 else 1)
          * (if \<bar>vz (position ball)\<bar> > width bounds / 2 + 0.5 then 0.5 else 1))
   \<and> vz (velocity (handleBoundaryCollision ball m))
     = (if vz (position ball) < - (m_fieldWidth m / 2) + Ball_RADIUS
        then \<bar>vz (velocity ball)\<bar> * 0.6
        else if vz (position ball) > m_fieldWidth m / 2 - Ball_RADIUS
        then - \<bar>vz (velocity ball)\<bar> * 0.6 else vz (velocity ball))
   \<and> vx (velocity (handleBoundaryCollision ball m))
     = (if \<not> match_inGoalArea m (position ball)
           \<and> vx (position ball) < - (m_fieldLength m / 2) + Ball_RADIUS
        then \<bar>vx (velocity ball)\<bar> * 0.6
        else if \<not> match_inGoalArea m (position ball)
           \<and> vx (position ball) > m_fieldLength m / 2 - Ball_RADIUS
        then - \<bar>vx (velocity ball)\<bar> * 0.6 else vx (velocity ball))
   \<and> angularVelocity (handleBoundaryCollision ball m) = angularVelocity ball
   \<and> handleFieldBoundaries \<lparr>position = vec3 0 0.22 34.6, velocity = vec3 0 0 2.0,
         angularVelocity = vec3 0 1.0 0, rotationAngle = 0\<rparr> FieldBounds_default
       \<noteq> handleBoundaryCollision \<lparr>position = vec3 0 0.22 34.6, velocity = vec3 0 0 2.0,
         angularVelocity = vec3 0 1.0 0, rotationAngle = 0\<rparr> Match_default"
proof -
  have "handleFieldBoundaries \<lparr>position = vec3 0 0.22 34.6, velocity = vec3 0 0 2.0,
         angularVelocity = vec3 0 1.0 0, rotationAngle = 0\<rparr> FieldBounds_default
       \<noteq> handleBoundaryCollision \<lparr>position = vec3 0 0.22 34.6, velocity = vec3 0 0 2.0,
         angularVelocity = vec3 0 1.0 0, rotationAngle = 0\<rparr> Match_default"
    unfolding layers_differ by (simp add: vec3_def)
  then show ?thesis
    using inGoalArea_same [of bounds m pos] handleFieldBoundaries_effect [of ball bounds]
      handleBoundaryCollision_effect [of ball m]
    by (intro conjI impI) blast+
qed

theorem C7_boundary_layers_witness:
  "goalWidth FieldBounds_default = m_goalWidth Match_default
   \<and> goalHeight FieldBounds_default = m_goalHeight Match_default
   \<and> physics_inGoalArea FieldBounds_default (vec3 53.0 1.0 0)
   \<and> match_inGoalArea Match_default (vec3 53.0 1.0 0)"
proof -
  have "physics_inGoalArea FieldBounds_default (vec3 53.0 1.0 0)"
    by (simp add: physics_inGoalArea_def FieldBounds_default_def vec3_def)
  moreover have "goalWidth FieldBounds_default = m_goalWidth Match_default
      \<and> goalHeight FieldBounds_default = m_goalHeight Match_default"
    by (simp add: FieldBounds_default_def Match_default_def)
  ultimately show ?thesis
    using C7_boundary_layers [of FieldBounds_default Match_default "vec3 53.0 1.0 0"]
    by blast
qed

text \<open>
  The two goal-window tests do not differ in the Y condition: on equal goal dimensions no
  position tells them apart.
\<close>

theorem C7_same_goal_window_counterexample:
  "\<not> (\<exists>bounds m pos. goalWidth bounds = m_goalWidth m \<and> goalHeight bounds = m_goalHeight m
         \<and> physics_inGoalArea bounds pos \<noteq> match_inGoalArea m pos)"
  using inGoalArea_same by blast

section \<open>Facing updates\<close>

lemma turn_less: "r - c + of_int k * c = r + of_int (k - 1) * (c::real)"
  by (simp add: algebra_simps)

lemma turn_more: "r + c + of_int k * c = r + of_int (k + 1) * (c::real)"
  by (simp add: algebra_simps)

lemma turn_sum: "r + of_int k * c + of_int j * c = r + of_int (k + j) * (c::real)"
  by (simp add: algebra_simps)

lemma wrap_down_id: "r \<le> 3.14159 \<Longrightarrow> wrap_down r = r"
  by (subst wrap_down.simps) simp

lemma wrap_up_id: "- 3.14159 \<le> r \<Longrightarrow> wrap_up r = r"
  by (subst wrap_up.simps) simp

lemma wrap_down_le: "wrap_down r \<le> 3.14159"
proof (induction r rule: wrap_down.induct)
  case (1 r)
  show ?case
  proof (cases "r > 3.14159")
    case True
    with "1.IH" show ?thesis by (subst wrap_down.simps) simp
  next
    case False
    then show ?thesis by (simp add: wrap_down_id)
  qed
qed

lemma wrap_down_turns: "\<exists>k::int. wrap_down r = r + of_int k * 6.28318"
proof (induction r rule: wrap_down.induct)
  case (1 r)
  show ?case
  proof (cases "r > 3.14159")
    case True
    with "1.IH" obtain k :: int
      where k: "wrap_down (r - 6.28318) = r - 6.28318 + of_int k * 6.28318"
      by blast
    have "wrap_down r = wrap_down (r - 6.28318)"
      using True by (subst wrap_down.simps) simp
    also have "\<dots> = r - 6.28318 + of_int k * 6.28318" by fact
    also have "\<dots> = r + of_int (k - 1) * 6.28318" by (rule turn_less)
    finally show ?thesis by blast
  next
    case False
    then have "wrap_down r = r + of_int 0 * 6.28318" by (simp add: wrap_down_id)
    then show ?thesis by blast
  qed
qed

lemma wrap_up_ge: "- 3.14159 \<le> wrap_up r"
proof (induction r rule: wrap_up.induct)
  case (1 r)
  show ?case
  proof (cases "r < - 3.14159")
    case True
    with "1.IH" show ?thesis by (subst wrap_up.simps) simp
  next
    case False
    then show ?thesis by (simp add: wrap_up_id)
  qed
qed

lemma wrap_up_le: "r \<le> 3.14159 \<Longrightarrow> wrap_up r \<le> 3.14159"
proof (induction r rule: wrap_up.induct)
  case (1 r)
  show ?case
  proof (cases "r < - 3.14159")
    case True
    note small = this
    show ?thesis
    proof (cases "r + 6.28318 < - 3.14159")
      case True
      with small "1.IH" show ?thesis by (subst wrap_up.simps) simp
    next
      case False
      then have "wrap_up (r + 6.28318) = r + 6.28318" by (simp add: wrap_up_id)
      with small show ?thesis by (subst wrap_up.simps) simp
    qed
  next
    case False
    with "1.prems" show ?thesis by (simp add: wrap_up_id)
  qed
qed

lemma wrap_up_turns: "\<exists>k::int. wrap_up r = r + of_int k * 6.28318"
proof (induction r rule: wrap_up.induct)
  case (1 r)
  show ?case
  proof (cases "r < - 3.14159")
    case True
    with "1.IH" obtain k :: int
      where k: "wrap_up (r + 6.28318) = r + 6.28318 + of_int k * 6.28318"
      by blast
    have "wrap_up r = wrap_up (r + 6.28318)"
      using True by (subst wrap_up.simps) simp
    also have "\<dots> = r + 6.28318 + of_int k * 6.28318" by fact
    also have "\<dots> = r + of_int (k + 1) * 6.28318" by (rule turn_more)
    finally show ?thesis by blast
  next
    case False
    then have "wrap_up r = r + of_int 0 * 6.28318" by (simp add: wrap_up_id)
    then show ?thesis by blast
  qed
qed

lemma wrap_range:
  "- 3.14159 \<le> wrap_up (wrap_down r) \<and> wrap_up (wrap_down r) \<le> 3.14159"
  by (intro conjI wrap_up_ge wrap_up_le wrap_down_le)

lemma wrap_turns: "\<exists>k::int. wrap_up (wrap_down r) = r + of_int k * 6.28318"
proof -
  obtain k :: int where k: "wrap_down r = r + of_int k * 6.28318"
    using wrap_down_turns by blast
  obtain j :: int where j: "wrap_up (wrap_down r) = wrap_down r + of_int j * 6.28318"
    using wrap_up_turns by blast
  have "wrap_down r + of_int j * 6.28318 = r + of_int (k + j) * 6.28318"
    unfolding k by (rule turn_sum)
  with j have "wrap_up (wrap_down r) = r + of_int (k + j) * 6.28318" by simp
  then show ?thesis by blast
qed

lemma Player_updateRotation_rotation:
  "m_rotation (Player_updateRotation dt p)
     = wrap_up (wrap_down (m_rotation p
         + wrap_up (wrap_down (m_targetRotation p - m_rotation p)) * (1 - exp (- 6.0 * dt))))"
  by (simp add: Player_updateRotation_def Player_ROTATION_SPEED_def Let_def)

lemma AIPlayer_update_rotation_rotation:
  "m_rotation_ai (AIPlayer_update_rotation dt a)
     = m_rotation_ai a
         + wrap_up (wrap_down (m_targetRotation_ai a - m_rotation_ai a)) * (1 - exp (- 8.0 * dt))"
  by (simp add: AIPlayer_update_rotation_def AI_ROTATION_SPEED_def Let_def)

text \<open>
  Claim C8, as the code has it. Both facing updates wrap the angle difference by whole
  turns of 6.28318 into \<open>[-3.14159, 3.14159]\<close> and advance the facing by that difference
  times \<open>1 - exp (- rate * dt)\<close>, the human player with rate 6 and the AI player with
  rate 8. The human player's resulting facing is wrapped into \<open>[-3.14159, 3.14159]\<close>.
\<close>

theorem C8_facing_updates:
  "m_rotation (Player_updateRotation dt p)
     = wrap_up (wrap_down (m_rotation p
         + wrap_up (wrap_down (m_targetRotation p - m_rotation p)) * (1 - exp (- 6.0 * dt))))
   \<and> - 3.14159 \<le> m_rotation (Player_updateRotation dt p)
   \<and> m_rotation (Player_updateRotation dt p) \<le> 3.14159
   \<and> m_rotation_ai (AIPlayer_update_rotation dt a)
     = m_rotation_ai a
         + wrap_up (wrap_down (m_targetRotation_ai a - m_rotation_ai a)) * (1 - exp (- 8.0 * dt))
   \<and> - 3.14159 \<le> wrap_up (wrap_down r) \<and> wrap_up (wrap_down r) \<le> 3.14159
   \<and> (\<exists>k::int. wrap_up (wrap_down r) = r + of_int k * 6.28318)"
proof -
  have rg: "- 3.14159 \<le> m_rotation (Player_updateRotation dt p)
      \<and> m_rotation (Player_updateRotation dt p) \<le> 3.14159"
    unfolding Player_updateRotation_rotation by (rule wrap_range)
  from Player_updateRotation_rotation [of dt p] AIPlayer_update_rotation_rotation [of dt a]
    rg wrap_range [of r] wrap_turns [of r]
  show ?thesis by (intro conjI) blast+
qed

text \<open>
  The two updates are not the same function. From facing 0 towards target 1 with
  \<open>dt = 0.1\<close> the human player reaches \<open>1 - exp (-0.6)\<close>, the AI player
  \<open>1 - exp (-0.8)\<close>. From facing 3 towards target \<open>-1\<close> the human player's new facing
  is back in range, the AI player's new facing is beyond \<open>pi\<close>.
\<close>

theorem C8_not_identical_counterexample:
  "m_rotation (Player_updateRotation 0.1 (Player_default\<lparr>m_targetRotation := 1.0\<rparr>))
     = 1 - exp (- 0.6)
   \<and> m_rotation_ai (AIPlayer_update_rotation 0.1 (AIPlayer_default\<lparr>m_targetRotation_ai := 1.0\<rparr>))
     = 1 - exp (- 0.8)
   \<and> 1 - exp (- 0.6) \<noteq> (1 - exp (- 0.8) :: real)
   \<and> m_rotation (Player_updateRotation 0.1
         (Player_default\<lparr>m_rotation := 3.0, m_targetRotation := - 1.0\<rparr>)) \<le> 3.14159
   \<and> pi < m_rotation_ai (AIPlayer_update_rotation 0.1
         (AIPlayer_default\<lparr>m_rotation_ai := 3.0, m_targetRotation_ai := - 1.0\<rparr>))"
proof -
  have w1: "wrap_up (wrap_down 1) = 1"
    by (simp add: wrap_down_id wrap_up_id)
  have e: "0 < exp (- (3 / 5) :: real)" "exp (- (3 / 5) :: real) \<le> 1" by simp_all
  have "1 - exp (- (3 / 5) :: real) \<le> 1" using e by linarith
  also have "(1::real) \<le> 3.14159" by simp
  finally have hi: "wrap_down (1 - exp (- (3 / 5))) = 1 - exp (- (3 / 5))"
    by (rule wrap_down_id)
  have "(- 3.14159 :: real) \<le> 0" by simp
  also have "(0::real) \<le> 1 - exp (- (3 / 5))" using e by linarith
  finally have lo: "wrap_up (1 - exp (- (3 / 5))) = 1 - exp (- (3 / 5))"
    by (rule wrap_up_id)
  have w2: "wrap_up (wrap_down (1 - exp (- (3 / 5)))) = 1 - exp (- (3 / 5))"
    by (simp only: hi lo)
  have pl: "m_rotation (Player_updateRotation 0.1 (Player_default\<lparr>m_targetRotation := 1.0\<rparr>))
     = 1 - exp (- 0.6)"
    by (simp add: Player_updateRotation_rotation Player_default_def w1 w2)
  have ai: "m_rotation_ai (AIPlayer_update_rotation 0.1
       (AIPlayer_default\<lparr>m_targetRotation_ai := 1.0\<rparr>)) = 1 - exp (- 0.8)"
    by (simp add: AIPlayer_update_rotation_rotation AIPlayer_default_def w1)
  have ne: "1 - exp (- 0.6) \<noteq> (1 - exp (- 0.8) :: real)" by simp
  have pr: "m_rotation (Player_updateRotation 0.1
         (Player_default\<lparr>m_rotation := 3.0, m_targetRotation := - 1.0\<rparr>)) \<le> 3.14159"
    unfolding Player_updateRotation_rotation using wrap_range by blast
  have "wrap_down (- 4) = - 4" by (rule wrap_down_id) simp
  moreover have "wrap_up (- 4) = wrap_up (- 4 + 6.28318)"
    by (subst wrap_up.simps) simp
  moreover have "wrap_up (- 4 + 6.28318) = - 4 + 6.28318"
    by (rule wrap_up_id) simp
  ultimately have d: "wrap_up (wrap_down (- 4)) = 114159 / 50000" by simp
  have "1 + 4 / 5 \<le> exp (4 / 5 :: real)" by (rule exp_ge_add_one_self)
  then have "exp (- (4 / 5) :: real) \<le> 5 / 9"
    by (simp add: exp_minus field_simps)
  then have "4 < 3 + 114159 / 50000 * (1 - exp (- (4 / 5) :: real))" by simp
  then have "4 < m_rotation_ai (AIPlayer_update_rotation 0.1
         (AIPlayer_default\<lparr>m_rotation_ai := 3.0, m_targetRotation_ai := - 1.0\<rparr>))"
    by (simp add: AIPlayer_update_rotation_rotation AIPlayer_default_def d)
  with pi_less_4 have ar: "pi < m_rotation_ai (AIPlayer_update_rotation 0.1
         (AIPlayer_default\<lparr>m_rotation_ai := 3.0, m_targetRotation_ai := - 1.0\<rparr>))"
    by (rule less_trans)
  from pl ai ne pr ar show ?thesis by (intro conjI)
qed

section \<open>The designated chaser\<close>

lemma search_red:
  fixes players :: "AIPlayer list" and ballPos :: Vec3
  defines "dst \<equiv> \<lambda>i. distanceToBall ballPos (players ! i)"
  defines "q \<equiv> \<lambda>i. m_team (players ! i) = 0 \<and> i \<noteq> 0 \<and> i \<noteq> 6"
  defines "st \<equiv> \<lambda>n. foldl (search_step ballPos players) search_init [0..<n]"
  shows "(closestRedIdx (st n) = - 1 \<and> closestRedDist (st n) = 999
            \<and> (\<forall>j<n. q j \<longrightarrow> 999 \<le> dst j))
         \<or> (\<exists>i<n. closestRedIdx (st n) = int i \<and> closestRedDist (st n) = dst i
               \<and> q i \<and> dst i < 999
               \<and> (\<forall>j<n. q j \<longrightarrow> dst i \<le> dst j \<and> (dst j = dst i \<longrightarrow> i \<le> j)))"
proof (induction n)
  case 0
  show ?case by (simp add: st_def search_init_def)
next
  case (Suc n)
  have step: "st (Suc n) = search_step ballPos players (st n) n"
    by (simp add: st_def)
  show ?case
  proof (cases "q n \<and> dst n < closestRedDist (st n)")
    case True
    then have new: "closestRedIdx (st (Suc n)) = int n" "closestRedDist (st (Suc n)) = dst n"
      by (simp_all add: step search_step_def q_def dst_def Let_def)
    from Suc.IH True have "dst n < 999 \<and> (\<forall>j<n. q j \<longrightarrow> dst n < dst j)"
      by (auto simp: not_le)
    then have "\<forall>j<Suc n. q j \<longrightarrow> dst n \<le> dst j \<and> (dst j = dst n \<longrightarrow> n \<le> j)"
      by (auto simp: less_Suc_eq)
    with new True \<open>dst n < 999 \<and> _\<close> show ?thesis by blast
  next
    case False
    then have old: "closestRedIdx (st (Suc n)) = closestRedIdx (st n)"
      "closestRedDist (st (Suc n)) = closestRedDist (st n)"
      by (auto simp: step search_step_def q_def dst_def Let_def)
    from Suc.IH show ?thesis
    proof
      assume a: "closestRedIdx (st n) = - 1 \<and> closestRedDist (st n) = 999
            \<and> (\<forall>j<n. q j \<longrightarrow> 999 \<le> dst j)"
      with False have "\<forall>j<Suc n. q j \<longrightarrow> 999 \<le> dst j"
        by (auto simp: less_Suc_eq)
      with a old show ?thesis by simp
    next
      assume "\<exists>i<n. closestRedIdx (st n) = int i \<and> closestRedDist (st n) = dst i
               \<and> q i \<and> dst i < 999
               \<and> (\<forall>j<n. q j \<longrightarrow> dst i \<le> dst j \<and> (dst j = dst i \<longrightarrow> i \<le> j))"
      then obtain i where i: "i < n" "closestRedIdx (st n) = int i"
        "closestRedDist (st n) = dst i" "q i" "dst i < 999"
        "\<forall>j<n. q j \<longrightarrow> dst i \<le> dst j \<and> (dst j = dst i \<longrightarrow> i \<le> j)"
        by blast
      from False i have "\<forall>j<Suc n. q j \<longrightarrow> dst i \<le> dst j \<and> (dst j = dst i \<longrightarrow> i \<le> j)"
        by (auto simp: less_Suc_eq)
      with i old have "i < Suc n \<and> closestRedIdx (st (Suc n)) = int i
          \<and> closestRedDist (st (Suc n)) = dst i \<and> q i \<and> dst i < 999
          \<and> (\<forall>j<Suc n. q j \<longrightarrow> dst i \<le> dst j \<and> (dst j = dst i \<longrightarrow> i \<le> j))"
        by simp
      then show ?thesis by blast
    qed
  qed
qed

lemma search_blue:
  fixes players :: "AIPlayer list" and ballPos :: Vec3
  defines "dst \<equiv> \<lambda>i. distanceToBall ballPos (players ! i)"
  defines "q \<equiv> \<lambda>i. m_team (players ! i) = 1 \<and> i \<noteq> 0 \<and> i \<noteq> 6"
  defines "st \<equiv> \<lambda>n. foldl (search_step ballPos players) search_init [0..<n]"
  shows "(closestBlueIdx (st n) = - 1 \<and> closestBlueDist (st n) = 999
            \<and> (\<forall>j<n. q j \<longrightarrow> 999 \<le> dst j))
         \<or> (\<exists>i<n. closestBlueIdx (st n) = int i \<and> closestBlueDist (st n) = dst i
               \<and> q i \<and> dst i < 999
               \<and> (\<forall>j<n. q j \<longrightarrow> dst i \<le> dst j \<and> (dst j = dst i \<longrightarrow> i \<le> j)))"
proof (induction n)
  case 0
  show ?case by (simp add: st_def search_init_def)
next
  case (Suc n)
  have step: "st (Suc n) = search_step ballPos players (st n) n"
    by (simp add: st_def)
  show ?case
  proof (cases "q n \<and> dst n < closestBlueDist (st n)")
    case True
    then have new: "closestBlueIdx (st (Suc n)) = int n" "closestBlueDist (st (Suc n)) = dst n"
      by (simp_all add: step search_step_def q_def dst_def Let_def)
    from Suc.IH True have "dst n < 999 \<and> (\<forall>j<n. q j \<longrightarrow> dst n < dst j)"
      by (auto simp: not_le)
    then have "\<forall>j<Suc n. q j \<longrightarrow> dst n \<le> dst j \<and> (dst j = dst n \<longrightarrow> n \<le> j)"
      by (auto simp: less_Suc_eq)
    with new True \<open>dst n < 999 \<and> _\<close> show ?thesis by blast
  next
    case False
    then have old: "closestBlueIdx (st (Suc n)) = closestBlueIdx (st n)"
      "closestBlueDist (st (Suc n)) = closestBlueDist (st n)"
      by (auto simp: step search_step_def q_def dst_def Let_def)
    from Suc.IH show ?thesis
    proof
      assume a: "closestBlueIdx (st n) = - 1 \<and> closestBlueDist (st n) = 999
            \<and> (\<forall>j<n. q j \<longrightarrow> 999 \<le> dst j)"
      with False have "\<forall>j<Suc n. q j \<longrightarrow> 999 \<le> dst j"
        by (auto simp: less_Suc_eq)
      with a old show ?thesis by simp
    next
      assume "\<exists>i<n. closestBlueIdx (st n) = int i \<and> closestBlueDist (st n) = dst i
               \<and> q i \<and> dst i < 999
               \<and> (\<forall>j<n. q j \<longrightarrow> dst i \<le> dst j \<and> (dst j = dst i \<longrightarrow> i \<le> j))"
      then obtain i where i: "i < n" "closestBlueIdx (st n) = int i"
        "closestBlueDist (st n) = dst i" "q i" "dst i < 999"
        "\<forall>j<n. q j \<longrightarrow> dst i \<le> dst j \<and> (dst j = dst i \<longrightarrow> i \<le> j)"
        by blast
      from False i have "\<forall>j<Suc n. q j \<longrightarrow> dst i \<le> dst j \<and> (dst j = dst i \<longrightarrow> i \<le> j)"
        by (auto simp: less_Suc_eq)
      with i old have "i < Suc n \<and> closestBlueIdx (st (Suc n)) = int i
          \<and> closestBlueDist (st (Suc n)) = dst i \<and> q i \<and> dst i < 999
          \<and> (\<forall>j<Suc n. q j \<longrightarrow> dst i \<le> dst j \<and> (dst j = dst i \<longrightarrow> i \<le> j))"
        by simp
      then show ?thesis by blast
    qed
  qed
qed

lemma findClosestChasers_length:
  "length (findClosestChasers ballPos players) = length players"
  by (simp add: findClosestChasers_def Let_def)

lemma findClosestChasers_nth:
  "k < length players \<Longrightarrow>
   findClosestChasers ballPos players ! k
     = (players ! k)\<lparr>m_isClosestChaser :=
         (int k = closestRedIdx (foldl (search_step ballPos players) search_init [0..<length players])
          \<or> int k = closestBlueIdx (foldl (search_step ballPos players) search_init [0..<length players]))\<rparr>"
  by (simp add: findClosestChasers_def Let_def)

lemma createTeams_shape:
  "map m_team (createTeams fieldLength) = [0, 0, 0, 0, 0, 0, 1, 1, 1, 1, 1]"
  "map m_isGoalkeeper (createTeams fieldLength)
     = [True, False, False, False, False, False, True, False, False, False, False]"
  by (simp_all add: createTeams_def newPlayer_def setTeam_def setHomePosition_def vec3_def Let_def)

lemma roster_goalkeepers:
  assumes "list_all2 (\<lambda>p q. m_team p = m_team q \<and> m_isGoalkeeper p = m_isGoalkeeper q)
             players (createTeams fieldLength)"
  shows "length players = 11"
    and "\<forall>i<length players. m_isGoalkeeper (players ! i) \<longleftrightarrow> (i = 0 \<or> i = 6)"
proof -
  have len: "length players = length (createTeams fieldLength)"
    using assms by (rule list_all2_lengthD)
  have "length (map m_team (createTeams fieldLength)) = 11"
    unfolding createTeams_shape by simp
  with len show l: "length players = 11" by simp
  have "map m_isGoalkeeper players = map m_isGoalkeeper (createTeams fieldLength)"
    using assms by (auto simp: list_all2_conv_all_nth intro: nth_equalityI)
  then have m: "map m_isGoalkeeper players
      = [True, False, False, False, False, False, True, False, False, False, False]"
    by (simp only: createTeams_shape)
  show "\<forall>i<length players. m_isGoalkeeper (players ! i) \<longleftrightarrow> (i = 0 \<or> i = 6)"
  proof (intro allI impI)
    fix i assume i: "i < length players"
    then have "m_isGoalkeeper (players ! i) = map m_isGoalkeeper players ! i" by simp
    moreover have "i = 0 \<or> i = 1 \<or> i = 2 \<or> i = 3 \<or> i = 4 \<or> i = 5 \<or> i = 6 \<or> i = 7
        \<or> i = 8 \<or> i = 9 \<or> i = 10"
      using i l by arith
    ultimately show "m_isGoalkeeper (players ! i) \<longleftrightarrow> (i = 0 \<or> i = 6)"
      unfolding m by auto
  qed
qed

lemma chaser_red:
  fixes players :: "AIPlayer list" and ballPos :: Vec3
  defines "res \<equiv> findClosestChasers ballPos players"
  assumes gk: "\<forall>i<length players. m_isGoalkeeper (players ! i) \<longleftrightarrow> (i = 0 \<or> i = 6)"
    and near: "\<exists>j<length players. m_team (players ! j) = 0 \<and> \<not> m_isGoalkeeper (players ! j)
                 \<and> distanceToBall ballPos (players ! j) < 999"
  shows "\<exists>i<length players.
           (\<forall>k<length players.
              (m_team (res ! k) = 0 \<and> \<not> m_isGoalkeeper (res ! k) \<and> m_isClosestChaser (res ! k))
              \<longleftrightarrow> k = i)
           \<and> (\<forall>j<length players.
                m_team (players ! j) = 0 \<and> \<not> m_isGoalkeeper (players ! j) \<longrightarrow>
                distanceToBall ballPos (players ! i) \<le> distanceToBall ballPos (players ! j)
                \<and> (distanceToBall ballPos (players ! j) = distanceToBall ballPos (players ! i)
                     \<longrightarrow> i \<le> j))"
proof -
  let ?n = "length players"
  let ?st = "foldl (search_step ballPos players) search_init [0..<?n]"
  from near gk have nofar: "\<not> (\<forall>j<?n. m_team (players ! j) = 0 \<and> j \<noteq> 0 \<and> j \<noteq> 6
       \<longrightarrow> 999 \<le> distanceToBall ballPos (players ! j))"
    by (auto simp: not_le)
  with search_red [of ballPos players ?n]
  obtain i where i: "i < ?n" "closestRedIdx ?st = int i"
      "m_team (players ! i) = 0 \<and> i \<noteq> 0 \<and> i \<noteq> 6"
      "\<forall>j<?n. m_team (players ! j) = 0 \<and> j \<noteq> 0 \<and> j \<noteq> 6 \<longrightarrow>
         distanceToBall ballPos (players ! i) \<le> distanceToBall ballPos (players ! j)
         \<and> (distanceToBall ballPos (players ! j) = distanceToBall ballPos (players ! i) \<longrightarrow> i \<le> j)"
    by blast
  from search_blue [of ballPos players ?n]
  have blue: "closestBlueIdx ?st = - 1
      \<or> (\<exists>b<?n. closestBlueIdx ?st = int b \<and> m_team (players ! b) = 1)"
    by blast
  have flags: "\<forall>k<?n. (m_team (res ! k) = 0 \<and> \<not> m_isGoalkeeper (res ! k)
        \<and> m_isClosestChaser (res ! k)) \<longleftrightarrow> k = i"
  proof (intro allI impI)
    fix k assume k: "k < ?n"
    have r: "res ! k = (players ! k)\<lparr>m_isClosestChaser :=
         (int k = closestRedIdx ?st \<or> int k = closestBlueIdx ?st)\<rparr>"
      unfolding res_def using k by (rule findClosestChasers_nth)
    show "(m_team (res ! k) = 0 \<and> \<not> m_isGoalkeeper (res ! k) \<and> m_isClosestChaser (res ! k))
        \<longleftrightarrow> k = i"
      using blue i(1,2,3) gk k unfolding r by auto
  qed
  have "\<forall>j<?n. m_team (players ! j) = 0 \<and> \<not> m_isGoalkeeper (players ! j) \<longrightarrow>
         distanceToBall ballPos (players ! i) \<le> distanceToBall ballPos (players ! j)
         \<and> (distanceToBall ballPos (players ! j) = distanceToBall ballPos (players ! i) \<longrightarrow> i \<le> j)"
    using i(4) gk by auto
  with flags i(1) show ?thesis by blast
qed

lemma chaser_blue:
  fixes players :: "AIPlayer list" and ballPos :: Vec3
  defines "res \<equiv> findClosestChasers ballPos players"
  assumes gk: "\<forall>i<length players. m_isGoalkeeper (players ! i) \<longleftrightarrow> (i = 0 \<or> i = 6)"
    and near: "\<exists>j<length players. m_team (players ! j) = 1 \<and> \<not> m_isGoalkeeper (players ! j)
                 \<and> distanceToBall ballPos (players ! j) < 999"
  shows "\<exists>i<length players.
           (\<forall>k<length players.
              (m_team (res ! k) = 1 \<and> \<not> m_isGoalkeeper (res ! k) \<and> m_isClosestChaser (res ! k))
              \<longleftrightarrow> k = i)
           \<and> (\<forall>j<length players.
                m_team (players ! j) = 1 \<and> \<not> m_isGoalkeeper (players ! j) \<longrightarrow>
                distanceToBall ballPos (players ! i) \<le> distanceToBall ballPos (players ! j)
                \<and> (distanceToBall ballPos (players ! j) = distanceToBall ballPos (players ! i)
                     \<longrightarrow> i \<le> j))"
proof -
  let ?n = "length players"
  let ?st = "foldl (search_step ballPos players) search_init [0..<?n]"
  from near gk have nofar: "\<not> (\<forall>j<?n. m_team (players ! j) = 1 \<and> j \<noteq> 0 \<and> j \<noteq> 6
       \<longrightarrow> 999 \<le> distanceToBall ballPos (players ! j))"
    by (auto simp: not_le)
  with search_blue [of ballPos players ?n]
  obtain i where i: "i < ?n" "closestBlueIdx ?st = int i"
      "m_team (players ! i) = 1 \<and> i \<noteq> 0 \<and> i \<noteq> 6"
      "\<forall>j<?n. m_team (players ! j) = 1 \<and> j \<noteq> 0 \<and> j \<noteq> 6 \<longrightarrow>
         distanceToBall ballPos (players ! i) \<le> distanceToBall ballPos (players ! j)
         \<and> (distanceToBall ballPos (players ! j) = distanceToBall ballPos (players ! i) \<longrightarrow> i \<le> j)"
    by blast
  from search_red [of ballPos players ?n]
  have red: "closestRedIdx ?st = - 1
      \<or> (\<exists>b<?n. closestRedIdx ?st = int b \<and> m_team (players ! b) = 0)"
    by blast
  have flags: "\<forall>k<?n. (m_team (res ! k) = 1 \<and> \<not> m_isGoalkeeper (res ! k)
        \<and> m_isClosestChaser (res ! k)) \<longleftrightarrow> k = i"
  proof (intro allI impI)
    fix k assume k: "k < ?n"
    have r: "res ! k = (players ! k)\<lparr>m_isClosestChaser :=
         (int k = closestRedIdx ?st \<or> int k = closestBlueIdx ?st)\<rparr>"
      unfolding res_def using k by (rule findClosestChasers_nth)
    show "(m_team (res ! k) = 1 \<and> \<not> m_isGoalkeeper (res ! k) \<and> m_isClosestChaser (res ! k))
        \<longleftrightarrow> k = i"
      using red i(1,2,3) gk k unfolding r by auto
  qed
  have "\<forall>j<?n. m_team (players ! j) = 1 \<and> \<not> m_isGoalkeeper (players ! j) \<longrightarrow>
         distanceToBall ballPos (players ! i) \<le> distanceToBall ballPos (players ! j)
         \<and> (distanceToBall ballPos (players ! j) = distanceToBall ballPos (players ! i) \<longrightarrow> i \<le> j)"
    using i(4) gk by auto
  with flags i(1) show ?thesis by blast
qed

text \<open>
  Where the search finds someone: on a roster with the teams and goalkeepers that
  \<open>createTeams\<close> builds (the players may have moved), for a team that has a non-goalkeeper
  less than 999 from the ball (the start value of the search), \<open>findClosestChasers\<close>
  leaves exactly one non-goalkeeper of that team with the chaser flag set. That player is
  nearest to the ball among the team's non-goalkeepers, and among equally near ones it is
  the first in the roster order.
\<close>

lemma one_chaser_per_team:
  assumes "list_all2 (\<lambda>p q. m_team p = m_team q \<and> m_isGoalkeeper p = m_isGoalkeeper q)
             players (createTeams fieldLength)"
    and "t = 0 \<or> t = 1"
    and "\<exists>j<length players. m_team (players ! j) = t \<and> \<not> m_isGoalkeeper (players ! j)
           \<and> distanceToBall ballPos (players ! j) < 999"
  shows "length (findClosestChasers ballPos players) = length players
    \<and> (\<exists>i<length players.
           (\<forall>k<length players.
              (m_team (findClosestChasers ballPos players ! k) = t
               \<and> \<not> m_isGoalkeeper (findClosestChasers ballPos players ! k)
               \<and> m_isClosestChaser (findClosestChasers ballPos players ! k))
              \<longleftrightarrow> k = i)
           \<and> (\<forall>j<length players.
                m_team (players ! j) = t \<and> \<not> m_isGoalkeeper (players ! j) \<longrightarrow>
                distanceToBall ballPos (players ! i) \<le> distanceToBall ballPos (players ! j)
                \<and> (distanceToBall ballPos (players ! j) = distanceToBall ballPos (players ! i)
                     \<longrightarrow> i \<le> j)))"
proof -
  note gk = roster_goalkeepers(2) [OF assms(1)]
  from assms(2) show ?thesis
  proof
    assume "t = 0"
    with chaser_red [OF gk, of ballPos] assms(3) show ?thesis
      by (simp add: findClosestChasers_length)
  next
    assume "t = 1"
    with chaser_blue [OF gk, of ballPos] assms(3) show ?thesis
      by (simp add: findClosestChasers_length)
  qed
qed




lemma createTeams_length: "length (createTeams fieldLength) = 11"
  by (simp add: createTeams_def)


lemma createTeams_nth_shape:
  "i < 11 \<Longrightarrow> m_team (createTeams fieldLength ! i) = (if i < 6 then 0 else 1)"
  "i < 11 \<Longrightarrow> m_isGoalkeeper (createTeams fieldLength ! i) = (i = 0 \<or> i = 6)"
proof -
  assume i: "i < 11"
  then have c: "i = 0 \<or> i = 1 \<or> i = 2 \<or> i = 3 \<or> i = 4 \<or> i = 5 \<or> i = 6 \<or> i = 7
        \<or> i = 8 \<or> i = 9 \<or> i = 10"
    by arith
  have "m_team (createTeams fieldLength ! i) = map m_team (createTeams fieldLength) ! i"
    using i by (simp add: createTeams_length)
  then show "m_team (createTeams fieldLength ! i) = (if i < 6 then 0 else 1)"
    unfolding createTeams_shape using c by auto
  have "m_isGoalkeeper (createTeams fieldLength ! i)
      = map m_isGoalkeeper (createTeams fieldLength) ! i"
    using i by (simp add: createTeams_length)
  then show "m_isGoalkeeper (createTeams fieldLength ! i) = (i = 0 \<or> i = 6)"
    unfolding createTeams_shape using c by auto
qed

text \<open>
  The roster as created, the ball 25 to the left of the centre: the two red defenders
  (roster entries 1 and 2) are equally near, at \<open>sqrt 244\<close>, and nearer than the other red
  outfield players. The first of them is the chaser, the second is not.
\<close>

lemma one_chaser_tie_break_example:
  "list_all2 (\<lambda>p q. m_team p = m_team q \<and> m_isGoalkeeper p = m_isGoalkeeper q)
       (createTeams 105) (createTeams 105)
   \<and> m_team (createTeams 105 ! 1) = 0 \<and> \<not> m_isGoalkeeper (createTeams 105 ! 1)
   \<and> distanceToBall (vec3 (- 25) 0.22 0) (createTeams 105 ! 1) < 999
   \<and> distanceToBall (vec3 (- 25) 0.22 0) (createTeams 105 ! 1)
       = distanceToBall (vec3 (- 25) 0.22 0) (createTeams 105 ! 2)
   \<and> m_isClosestChaser (findClosestChasers (vec3 (- 25) 0.22 0) (createTeams 105) ! 1)
   \<and> \<not> m_isClosestChaser (findClosestChasers (vec3 (- 25) 0.22 0) (createTeams 105) ! 2)"
proof -
  let ?C = "createTeams 105" and ?b = "vec3 (- 25) 0.22 0"
  let ?R = "findClosestChasers ?b ?C"
  note defs = createTeams_def newPlayer_def setTeam_def setHomePosition_def vec3_def
    distanceToBall_def vlength_def vdot_def vsub_def Let_def
  have same: "list_all2 (\<lambda>p q. m_team p = m_team q \<and> m_isGoalkeeper p = m_isGoalkeeper q) ?C ?C"
    by (simp add: list_all2_conv_all_nth)
  have p1: "m_team (?C ! 1) = 0 \<and> \<not> m_isGoalkeeper (?C ! 1)"
    by (simp add: createTeams_nth_shape)
  have d1: "distanceToBall ?b (?C ! 1) = sqrt 244" by (simp add: defs)
  have d2: "distanceToBall ?b (?C ! 2) = sqrt 244" by (simp add: defs)
  have d3: "distanceToBall ?b (?C ! 3) = sqrt 325" by (simp add: defs)
  have d4: "distanceToBall ?b (?C ! 4) = sqrt 325" by (simp add: defs)
  have d5: "distanceToBall ?b (?C ! 5) = sqrt 400" by (simp add: defs)
  have lt: "sqrt 244 < (999::real)"
    by (rule real_less_lsqrt) simp_all
  have near: "\<exists>j<length ?C. m_team (?C ! j) = 0 \<and> \<not> m_isGoalkeeper (?C ! j)
       \<and> distanceToBall ?b (?C ! j) < 999"
    using p1 d1 lt by (intro exI [of _ 1]) (simp add: createTeams_length)
  have t: "(0::i32) = 0 \<or> (0::i32) = 1" by simp
  from one_chaser_per_team [OF same t near]
  obtain i where i: "i < 11"
    and flag: "\<forall>k<11. (m_team (?R ! k) = 0 \<and> \<not> m_isGoalkeeper (?R ! k)
                  \<and> m_isClosestChaser (?R ! k)) \<longleftrightarrow> k = i"
    and best: "\<forall>j<11. m_team (?C ! j) = 0 \<and> \<not> m_isGoalkeeper (?C ! j) \<longrightarrow>
                distanceToBall ?b (?C ! i) \<le> distanceToBall ?b (?C ! j)
                \<and> (distanceToBall ?b (?C ! j) = distanceToBall ?b (?C ! i) \<longrightarrow> i \<le> j)"
    unfolding createTeams_length by blast
  have keep: "m_team (?R ! k) = m_team (?C ! k) \<and> m_isGoalkeeper (?R ! k) = m_isGoalkeeper (?C ! k)"
    if "k < 11" for k
    using that by (simp add: findClosestChasers_nth createTeams_length)
  from flag i keep [OF i] have qi: "m_team (?C ! i) = 0 \<and> \<not> m_isGoalkeeper (?C ! i)"
    by auto
  then have "i \<noteq> 0 \<and> i < 6" using i by (auto simp: createTeams_nth_shape split: if_splits)
  then have c: "i = 1 \<or> i = 2 \<or> i = 3 \<or> i = 4 \<or> i = 5" by arith
  from best p1 have b1: "distanceToBall ?b (?C ! i) \<le> sqrt 244"
    and tie: "sqrt 244 = distanceToBall ?b (?C ! i) \<longrightarrow> i \<le> 1"
    unfolding d1 [symmetric] by auto
  have lt20: "sqrt 244 < (20::real)"
    by (rule real_less_lsqrt) simp_all
  have i1: "i = 1" using c b1 tie d1 d2 d3 d4 d5 lt20 by auto
  have q1: "m_team (?R ! 1) = 0 \<and> \<not> m_isGoalkeeper (?R ! 1)"
    using keep [of 1] p1 by simp
  have q2: "m_team (?R ! 2) = 0 \<and> \<not> m_isGoalkeeper (?R ! 2)"
    using keep [of 2] by (simp add: createTeams_nth_shape)
  from flag [rule_format, of 1] q1 i1 have c1: "m_isClosestChaser (?R ! 1)" by simp
  from flag [rule_format, of 2] q2 i1 have c2: "\<not> m_isClosestChaser (?R ! 2)" by simp
  from same p1 d1 d2 lt c1 c2 show ?thesis by simp
qed

end
